theory Spec2Isabelle
  imports Complex_Main "HOL-Library.Sublist"
begin

section \<open>Conventions of the embedding\<close>

text \<open>
  The backend is Python. Its values are embedded as follows.
  \<^item> A Python \<open>float\<close> is a \<^typ>\<open>real\<close>. The confidences of the document, text
    and combined image analyses are read as exact arithmetic. In the error level
    analysis the category turns on the comparison of a computed score with the
    thresholds 0.7 and 0.4, and there every operation is rounded to a double as the
    machine does.
  \<^item> A Python \<open>int\<close> is an \<^typ>\<open>int\<close>, the \<open>len\<close> of a list a \<^typ>\<open>nat\<close>.
  \<^item> A Python \<open>str\<close> is a \<^typ>\<open>string\<close>; verdicts and statuses stay the string
    literals of the source.
  \<^item> A \<open>raise\<close> is the left summand of a sum type; \<open>try: ... except Exception\<close> is
    a case analysis on that sum.
  \<^item> What a library call (PIL, numpy, OpenCV, torch, the storage client, the hash
    function, the UUID generator) answers during one run is an argument of the model.
\<close>

datatype error =
    HTTPException nat string
  | Raised string

type_synonym bytes = "nat list"

section \<open>Image forensics (services/image\_forensics.py)\<close>

subsection \<open>Combination of the two image signals\<close>

text \<open>
  \<open>_combine_results\<close>. The statements after the \<open>if\<close>/\<open>else\<close> of the source are
  unreachable (both branches return) and have no counterpart here.
\<close>

definition combine_results :: "string \<Rightarrow> real \<Rightarrow> string \<Rightarrow> real \<Rightarrow> string \<times> real" where
  "combine_results ela_result ela_confidence cnn_result cnn_confidence =
     (let ela_weight = 0.6; cnn_weight = 0.4 in
      if ela_result = cnn_result then
        (ela_result, ela_confidence * ela_weight + cnn_confidence * cnn_weight)
      else if ela_confidence > cnn_confidence then
        (ela_result, ela_confidence * 0.9)
      else
        (cnn_result, cnn_confidence * 0.9))"

subsection \<open>Double precision arithmetic\<close>

text \<open>
  A double is a real of the form \<open>m * 2 ^ e\<close> with an integer \<open>m\<close> of at most 53 bits.
  \<open>fl\<close> rounds a real to the nearest double, ties to the even mantissa: the value is
  scaled by powers of two until it lies between \<open>2 ^ 52\<close> and \<open>2 ^ 53\<close>, rounded to
  an integer there, and scaled back. The bound on the exponent of a double is left
  out (the first argument bounds the number of scalings instead): the values of the
  error level analysis lie between \<open>2 ^ -64\<close> and 16. An arithmetic operation on
  doubles is the exact operation followed by \<open>fl\<close>, and a decimal literal of the
  source such as \<open>0.7\<close> is the double \<open>fl 0.7\<close>.
\<close>

definition rne :: "real \<Rightarrow> int" where
  "rne m =
     (let f = \<lfloor>m\<rfloor>; r = m - of_int f
      in if r < 1 / 2 then f else if r > 1 / 2 then f + 1 else if even f then f else f + 1)"

fun scale_round :: "nat \<Rightarrow> real \<Rightarrow> real" where
  "scale_round 0 x = x"
| "scale_round (Suc n) x =
     (if x \<ge> 2 ^ 53 then 2 * scale_round n (x / 2)
      else if x < 2 ^ 52 then scale_round n (2 * x) / 2
      else of_int (rne x))"

definition fl :: "real \<Rightarrow> real" where
  "fl x = (if x = 0 then 0 else if x < 0 then - scale_round 1200 (- x) else scale_round 1200 x)"

definition fadd :: "real \<Rightarrow> real \<Rightarrow> real" where
  "fadd a b = fl (a + b)"

definition fsub :: "real \<Rightarrow> real \<Rightarrow> real" where
  "fsub a b = fl (a - b)"

definition fmul :: "real \<Rightarrow> real \<Rightarrow> real" where
  "fmul a b = fl (a * b)"

definition fdiv :: "real \<Rightarrow> real \<Rightarrow> real" where
  "fdiv a b = fl (a / b)"

subsection \<open>Error level analysis\<close>

text \<open>
  What numpy and OpenCV measure on the grayscale error map inside
  \<open>_analyze_ela_patterns\<close>: the number of pixels above mean plus two standard
  deviations, the number of edge pixels found by \<open>cv2.Canny\<close>, and the size of the map.
  A map without pixels does not come this far (writing an empty image as JPEG raises,
  and so does \<open>cv2.cvtColor\<close> on an empty array), so the statements about the
  quotients take the size to be positive.
\<close>

record pixel_counts =
  high_error_pixels :: nat
  edge_pixels :: nat
  total_pixels :: nat

text \<open>
  \<open>_analyze_ela_patterns\<close>. The argument is the outcome of the measurements: \<open>Inl\<close>
  when numpy or OpenCV raised inside the \<open>try\<close>, in which case the handler returns 0.0.
  The division of two integers converts both to doubles first.
\<close>

definition analyze_ela_patterns :: "error + pixel_counts \<Rightarrow> real" where
  "analyze_ela_patterns measured =
     (case measured of
        Inl e \<Rightarrow> 0.0
      | Inr px \<Rightarrow>
          (let tampering_ratio =
                 fdiv (fl (real (high_error_pixels px))) (fl (real (total_pixels px)));
               edge_density = fdiv (fl (real (edge_pixels px))) (fl (real (total_pixels px)));
               tampering_score = fadd (fmul tampering_ratio (fl 0.7)) (fmul edge_density (fl 0.3))
           in min 1.0 (fmul tampering_score 10)))"

text \<open>
  One run of \<open>_run_ela_analysis\<close> as the outside world answers it:
  \<^item> \<open>ela_image\<close>: \<open>Inl\<close> when \<open>Image.open\<close>, \<open>convert\<close>, \<open>save\<close> or
    \<open>_calculate_ela\<close> raised; otherwise the error map, given by its measurements;
  \<^item> \<open>heatmap\<close>: the path \<open>_generate_ela_heatmap\<close> returned (it catches its own
    exceptions and returns the empty string);
  \<^item> \<open>cleanup\<close>: the removal of the temporary JPEG.
\<close>

record ela_run =
  ela_image :: "error + (error + pixel_counts)"
  heatmap :: string
  cleanup :: "error + unit"

text \<open>The body of the \<open>try\<close> block of \<open>_run_ela_analysis\<close>.\<close>

definition run_ela_analysis_body :: "ela_run \<Rightarrow> error + string \<times> real \<times> string" where
  "run_ela_analysis_body w =
     (case ela_image w of
        Inl e \<Rightarrow> Inl e
      | Inr ela \<Rightarrow>
          (let tampering_score = analyze_ela_patterns ela;
               heatmap_path = heatmap w
           in case cleanup w of
                Inl e \<Rightarrow> Inl e
              | Inr u \<Rightarrow>
                  if tampering_score > fl 0.7 then
                    Inr (''suspicious'',
                         min (fl 0.95) (fadd (fl 0.6) (fmul tampering_score (fl 0.3))),
                         heatmap_path)
                  else if tampering_score > fl 0.4 then
                    Inr (''suspicious'',
                         min (fl 0.85) (fadd (fl 0.5) (fmul tampering_score (fl 0.3))),
                         heatmap_path)
                  else
                    Inr (''authentic'',
                         max (fl 0.6) (fsub (fl 0.9) (fmul tampering_score (fl 0.3))),
                         heatmap_path)))"

text \<open>\<open>_run_ela_analysis\<close>: the body under \<open>except Exception\<close>.\<close>

definition run_ela_analysis :: "ela_run \<Rightarrow> error + string \<times> real \<times> string" where
  "run_ela_analysis w =
     (case run_ela_analysis_body w of
        Inl e \<Rightarrow> Inr (''authentic'', 0.5, '''')
      | Inr r \<Rightarrow> Inr r)"

subsection \<open>The learned classifier\<close>

text \<open>
  One run of \<open>_run_cnn_analysis\<close>: whether \<open>self.model\<close> is set, and what loading the
  image and running the network gives: \<open>Inl\<close> when any of it raised, otherwise the
  index of the predicted class and its softmax probability. The second test of
  \<open>self.model is None\<close>, after the inference, cannot succeed and is left out.
\<close>

record cnn_run =
  model_loaded :: bool
  inference :: "error + nat \<times> real"

definition run_cnn_analysis_body :: "cnn_run \<Rightarrow> error + string \<times> real" where
  "run_cnn_analysis_body w =
     (if \<not> model_loaded w then Inr (''authentic'', 0.5)
      else case inference w of
             Inl e \<Rightarrow> Inl e
           | Inr (prediction, confidence) \<Rightarrow>
               Inr (if prediction = 1 then ''suspicious'' else ''authentic'', confidence))"

definition run_cnn_analysis :: "cnn_run \<Rightarrow> error + string \<times> real" where
  "run_cnn_analysis w =
     (case run_cnn_analysis_body w of
        Inl e \<Rightarrow> Inr (''authentic'', 0.5)
      | Inr r \<Rightarrow> Inr r)"

subsection \<open>The image pipeline\<close>

text \<open>
  \<open>analyze_image\<close>. For a path in cloud storage the file is fetched first, and that
  can raise; the two extractors run next, then the combination. Any exception that
  reaches the outer handler is logged and raised again. Timings are left out.
\<close>

record image_run =
  fetch :: "error + unit"
  ela :: ela_run
  cnn :: cnn_run
  unlink_temp :: "error + unit"

record image_result =
  verdict_of :: string
  confidence_score_of :: real
  ela_result_of :: string
  ela_confidence_of :: real
  ela_heatmap_path_of :: string
  cnn_result_of :: string
  cnn_confidence_of :: real

definition is_cloud_path :: "string \<Rightarrow> bool" where
  "is_cloud_path file_path \<longleftrightarrow> prefix ''s3://'' file_path \<or> prefix ''minio://'' file_path"

definition analyze_image :: "string \<Rightarrow> image_run \<Rightarrow> error + image_result" where
  "analyze_image file_path w =
     (case (if is_cloud_path file_path then fetch w else Inr ()) of
        Inl e \<Rightarrow> Inl e
      | Inr u \<Rightarrow>
          (case run_ela_analysis (ela w) of
             Inl e \<Rightarrow> Inl e
           | Inr (ela_result, ela_confidence, ela_heatmap_path) \<Rightarrow>
               (case run_cnn_analysis (cnn w) of
                  Inl e \<Rightarrow> Inl e
                | Inr (cnn_result, cnn_confidence) \<Rightarrow>
                    (let (overall_verdict, overall_confidence) =
                           combine_results ela_result ela_confidence cnn_result cnn_confidence
                     in case (if is_cloud_path file_path then unlink_temp w else Inr ()) of
                          Inl e \<Rightarrow> Inl e
                        | Inr u' \<Rightarrow>
                            Inr \<lparr>verdict_of = overall_verdict,
                                 confidence_score_of = overall_confidence,
                                 ela_result_of = ela_result,
                                 ela_confidence_of = ela_confidence,
                                 ela_heatmap_path_of = ela_heatmap_path,
                                 cnn_result_of = cnn_result,
                                 cnn_confidence_of = cnn_confidence\<rparr>))))"

section \<open>Document forensics (services/pdf\_forensics.py)\<close>

subsection \<open>Findings\<close>

text \<open>
  An entry of \<open>suspicious_objects\<close> as \<open>_parse_pdfid_output\<close> builds it, an anomaly as
  \<open>_detect_anomalies\<close> builds it (its \<open>technical_details\<close> are left out; the
  explanation is read with \<open>get\<close> and may be absent), and a suspicious structure
  element as \<open>_analyze_pdf_structure\<close> builds it.
\<close>

record suspicious_object =
  so_type :: string
  so_count :: int
  so_risk_level :: string
  so_explanation :: string

record anomaly =
  an_type :: string
  an_description :: string
  an_severity :: string
  an_explanation :: "string option"

record structure_element =
  el_element :: string
  el_risk :: string
  el_explanation :: string

text \<open>\<open>_get_risk_level\<close>: \<open>risk in obj_type\<close> is the substring test.\<close>

definition get_risk_level :: "string \<Rightarrow> string" where
  "get_risk_level obj_type =
     (let high_risk = [''/JS'', ''/JavaScript'', ''/Launch'', ''/SubmitForm'', ''/OpenAction'',
                       ''/AA'', ''/URI''];
          medium_risk = [''/AcroForm'', ''/EmbeddedFile'', ''/FileAttachment'', ''/ImportData'',
                         ''/GoTo'', ''/GoToR'']
      in if list_ex (\<lambda>risk. sublist risk obj_type) high_risk then ''high''
         else if list_ex (\<lambda>risk. sublist risk obj_type) medium_risk then ''medium''
         else ''low'')"

text \<open>\<open>_get_suspicious_explanation\<close>: a dictionary lookup with a default.\<close>

definition explanations :: "(string \<times> string) list" where
  "explanations =
     [(''/JS'', ''JavaScript can execute malicious code when PDF is opened''),
      (''/JavaScript'', ''JavaScript can execute malicious code when PDF is opened''),
      (''/Launch'', ''Can launch external programs or applications''),
      (''/SubmitForm'', ''Can submit form data to external servers''),
      (''/ImportData'', ''Can import data from external sources''),
      (''/OpenAction'', ''Executes actions automatically when PDF opens''),
      (''/AA'', ''Additional actions that execute automatically''),
      (''/URI'', ''Can open external websites or URLs''),
      (''/GoTo'', ''Can navigate to external destinations''),
      (''/GoToR'', ''Can navigate to external destinations with remote go-to''),
      (''/AcroForm'', ''Interactive forms can contain malicious scripts''),
      (''/EmbeddedFile'', ''Can contain hidden executable files''),
      (''/FileAttachment'', ''Can contain hidden executable files''),
      (''/RichMedia'', ''Can contain multimedia content with scripts''),
      (''/3D'', ''3D content can contain embedded scripts''),
      (''/Movie'', ''Movie content can contain embedded scripts'')]"

definition get_suspicious_explanation :: "string \<Rightarrow> string" where
  "get_suspicious_explanation obj_type =
     (case map_of explanations obj_type of
        Some expl \<Rightarrow> expl
      | None \<Rightarrow> ''Unknown suspicious object type: '' @ obj_type)"

text \<open>The dictionary \<open>_parse_pdfid_output\<close> appends for a suspicious object type.\<close>

definition suspicious_entry :: "string \<Rightarrow> int \<Rightarrow> suspicious_object" where
  "suspicious_entry obj_type count =
     \<lparr>so_type = obj_type, so_count = count, so_risk_level = get_risk_level obj_type,
      so_explanation = get_suspicious_explanation obj_type\<rparr>"

text \<open>
  The dictionary \<open>_detect_anomalies\<close> appends when the modification date lies before
  the creation date.
\<close>

definition time_anomaly :: anomaly where
  "time_anomaly =
     \<lparr>an_type = ''time_anomaly'',
      an_description = ''Modification date is before creation date'',
      an_severity = ''high'',
      an_explanation = Some (''This is logically impossible and indicates metadata tampering. '' @
                             ''The document timestamps have been forged.'')\<rparr>"

subsection \<open>Results of the two analysis passes\<close>

text \<open>
  Both passes return either a dictionary with an \<open>error\<close> key only, or a full report.
  Of the \<open>structure\<close> dictionary only \<open>suspicious_elements\<close> is kept: nothing else of
  it is read by the scoring.
\<close>

record pdfid_report =
  objects :: "(string \<times> int) list"
  suspicious_objects :: "suspicious_object list"
  total_objects :: int
  security_flags :: "string list"

datatype pdfid_results = Pdfid_error string | Pdfid_ok pdfid_report

record pikepdf_report =
  metadata :: "(string \<times> string) list"
  suspicious_elements :: "structure_element list"
  anomalies :: "anomaly list"

datatype pikepdf_results = Pikepdf_error string | Pikepdf_ok pikepdf_report

text \<open>The \<open>get\<close> calls with an empty default.\<close>

fun get_suspicious_objects :: "pdfid_results \<Rightarrow> suspicious_object list" where
  "get_suspicious_objects (Pdfid_error e) = []"
| "get_suspicious_objects (Pdfid_ok r) = suspicious_objects r"

fun get_security_flags :: "pdfid_results \<Rightarrow> string list" where
  "get_security_flags (Pdfid_error e) = []"
| "get_security_flags (Pdfid_ok r) = security_flags r"

fun get_anomalies :: "pikepdf_results \<Rightarrow> anomaly list" where
  "get_anomalies (Pikepdf_error e) = []"
| "get_anomalies (Pikepdf_ok r) = anomalies r"

fun get_suspicious_elements :: "pikepdf_results \<Rightarrow> structure_element list" where
  "get_suspicious_elements (Pikepdf_error e) = []"
| "get_suspicious_elements (Pikepdf_ok r) = suspicious_elements r"

subsection \<open>Decimal rendering of an integer inside an f-string\<close>

definition digit_char :: "nat \<Rightarrow> char" where
  "digit_char d = char_of (48 + d)"

function str_nat :: "nat \<Rightarrow> string" where
  "str_nat n = (if n < 10 then [digit_char n] else str_nat (n div 10) @ [digit_char (n mod 10)])"
  by pat_completeness auto
termination
  by (relation "measure (\<lambda>n. n)") auto

declare str_nat.simps [simp del]

definition str_int :: "int \<Rightarrow> string" where
  "str_int i = (if i < 0 then ''-'' @ str_nat (nat (- i)) else str_nat (nat i))"

subsection \<open>Risk scoring\<close>

text \<open>
  The three loops of \<open>_combine_analysis_results\<close>. Each carries the pair of the running
  \<open>risk_score\<close> and the list \<open>risk_details\<close>.
\<close>

fun score_objects :: "suspicious_object list \<Rightarrow> int \<times> string list \<Rightarrow> int \<times> string list" where
  "score_objects [] acc = acc"
| "score_objects (obj # rest) (risk_score, risk_details) =
     score_objects rest
       (if so_risk_level obj = ''high'' then
          (risk_score + 3,
           risk_details @ [''High-risk object: '' @ so_type obj @ '' ('' @ str_int (so_count obj)
                           @ '') - '' @ so_explanation obj])
        else if so_risk_level obj = ''medium'' then
          (risk_score + 2,
           risk_details @ [''Medium-risk object: '' @ so_type obj @ '' ('' @ str_int (so_count obj)
                           @ '') - '' @ so_explanation obj])
        else
          (risk_score + 1,
           risk_details @ [''Low-risk object: '' @ so_type obj @ '' ('' @ str_int (so_count obj)
                           @ '') - '' @ so_explanation obj]))"

definition explanation_or_default :: "anomaly \<Rightarrow> string" where
  "explanation_or_default a =
     (case an_explanation a of Some expl \<Rightarrow> expl | None \<Rightarrow> ''No explanation provided'')"

fun score_anomalies :: "anomaly list \<Rightarrow> int \<times> string list \<Rightarrow> int \<times> string list" where
  "score_anomalies [] acc = acc"
| "score_anomalies (a # rest) (risk_score, risk_details) =
     score_anomalies rest
       (if an_severity a = ''high'' then
          (risk_score + 3,
           risk_details @ [''High-severity anomaly: '' @ an_description a @ '' - ''
                           @ explanation_or_default a])
        else if an_severity a = ''medium'' then
          (risk_score + 2,
           risk_details @ [''Medium-severity anomaly: '' @ an_description a @ '' - ''
                           @ explanation_or_default a])
        else
          (risk_score + 1,
           risk_details @ [''Low-severity anomaly: '' @ an_description a @ '' - ''
                           @ explanation_or_default a]))"

fun score_elements :: "structure_element list \<Rightarrow> int \<times> string list \<Rightarrow> int \<times> string list" where
  "score_elements [] acc = acc"
| "score_elements (el # rest) (risk_score, risk_details) =
     score_elements rest
       (risk_score + 2,
        risk_details @ [''Structure issue: '' @ el_element el @ '' - '' @ el_explanation el])"

record summary =
  total_suspicious_objects :: nat
  total_anomalies :: nat
  risk_indicators :: "string list"
  summary_security_flags :: "string list"
  risk_explanation :: string
  risk_score :: int

record combined_analysis =
  pdfid_analysis :: pdfid_results
  pikepdf_analysis :: pikepdf_results
  charts :: "(string \<times> string) list"
  summary :: summary

definition combine_analysis_results ::
    "pdfid_results \<Rightarrow> pikepdf_results \<Rightarrow> (string \<times> string) list \<Rightarrow> combined_analysis" where
  "combine_analysis_results pdfid_res pikepdf_res charts_paths =
     (let (score, details) =
            score_elements (get_suspicious_elements pikepdf_res)
              (score_anomalies (get_anomalies pikepdf_res)
                 (score_objects (get_suspicious_objects pdfid_res) (0, [])))
      in \<lparr>pdfid_analysis = pdfid_res,
          pikepdf_analysis = pikepdf_res,
          charts = charts_paths,
          summary =
            \<lparr>total_suspicious_objects = length (get_suspicious_objects pdfid_res),
             total_anomalies = length (get_anomalies pikepdf_res),
             risk_indicators = details,
             summary_security_flags = get_security_flags pdfid_res,
             risk_explanation =
               (if score = 0 then
                  ''No security risks detected. Document appears to be clean and legitimate.''
                else if score \<le> 3 then
                  ''Low risk. Minor anomalies detected but document appears generally safe.''
                else if score \<le> 6 then
                  ''Medium risk. Several suspicious elements detected. Exercise caution and review details.''
                else
                  ''High risk. Multiple security threats detected. Document should be considered potentially malicious.''),
             risk_score = score\<rparr>\<rparr>)"

text \<open>\<open>_determine_verdict\<close>.\<close>

definition determine_verdict :: "combined_analysis \<Rightarrow> string \<times> real" where
  "determine_verdict analysis =
     (let score = risk_score (summary analysis);
          total_indicators = length (risk_indicators (summary analysis))
      in if score \<ge> 8 \<or> total_indicators \<ge> 5 then
           (''suspicious'', min 0.95 (0.7 + real_of_int score * 0.03))
         else if score \<ge> 4 \<or> total_indicators \<ge> 2 then
           (''suspicious'', min 0.85 (0.6 + real_of_int score * 0.04))
         else if score \<ge> 2 then
           (''suspicious'', min 0.75 (0.5 + real_of_int score * 0.05))
         else
           (''authentic'', max 0.7 (0.9 - real_of_int score * 0.1)))"

section \<open>Text credibility (services/intelligence\_analysis.py)\<close>

text \<open>
  The dictionary \<open>analysis_results\<close> and the dictionaries under its keys. A key that
  may be missing is an option: \<open>get\<close> supplies a default, a subscript raises
  \<open>KeyError\<close>. The field \<open>anomaly_flag\<close> is the key \<open>anomaly_detected\<close> of the
  dictionary that \<open>_check_historical_anomaly\<close> returns, which is itself stored under the
  key \<open>anomaly_detected\<close>.
\<close>

record sentiment =
  label :: "string option"
  score :: "real option"

record anomaly_check =
  anomaly_flag :: "bool option"
  details :: string

record analysis_results =
  red_flags :: "string list option"
  sentiment_of :: "sentiment option"
  anomaly_detected :: "anomaly_check option"

text \<open>\<open>_calculate_credibility_score\<close>. \<open>Inl\<close> is the \<open>KeyError\<close> of \<open>sentiment['label']\<close>.\<close>

definition calculate_credibility_score :: "analysis_results \<Rightarrow> error + real" where
  "calculate_credibility_score res =
     (let base_score = 10.0;
          flags = (case red_flags res of Some fs \<Rightarrow> fs | None \<Rightarrow> []);
          red_flag_penalty = real (length flags) * 1.5;
          base_score = base_score - red_flag_penalty;
          sent = (case sentiment_of res of Some s \<Rightarrow> s | None \<Rightarrow> \<lparr>label = None, score = None\<rparr>);
          sentiment_score = (case score sent of Some p \<Rightarrow> p | None \<Rightarrow> 0.5)
      in case label sent of
           None \<Rightarrow> Inl (Raised ''KeyError: label'')
         | Some l \<Rightarrow>
             (let base_score =
                    (if l = ''NEGATIVE'' then base_score - 2.0
                     else if l = ''POSITIVE'' \<and> sentiment_score > 0.8 then base_score - 1.0
                     else base_score);
                  detected =
                    (case anomaly_detected res of
                       None \<Rightarrow> False
                     | Some a \<Rightarrow> (case anomaly_flag a of Some b \<Rightarrow> b | None \<Rightarrow> False));
                  base_score = (if detected then base_score - 3.0 else base_score)
              in Inr (max 0.0 (min 10.0 base_score))))"

section \<open>The files table and the background tasks\<close>

text \<open>
  A row of the table \<open>files\<close> (class \<open>File\<close> of models/file.py), without its primary key, its
  timestamps and its relations. The state of the system is the table and the list of
  background tasks that the routes have handed to \<open>BackgroundTasks.add_task\<close>.
\<close>

record file_row =
  file_id :: string
  filename :: string
  original_filename :: string
  file_type :: string
  mime_type :: string
  file_size :: nat
  file_hash :: string
  storage_path :: string
  storage_type :: string
  verdict :: "string option"
  confidence_score :: "real option"
  analysis_status :: string

datatype task =
    Run_pdf_analysis string string
  | Run_image_analysis string string
  | Run_public_pdf_analysis string string
  | Run_public_image_analysis string string

record system =
  files :: "file_row list"
  tasks :: "task list"

text \<open>
  \<open>db.query(FileModel).filter(...).first()\<close> is \<^const>\<open>find\<close>; assigning to a
  column of the row it returns and committing rewrites that row in place.
\<close>

fun update_first :: "('a \<Rightarrow> bool) \<Rightarrow> ('a \<Rightarrow> 'a) \<Rightarrow> 'a list \<Rightarrow> 'a list" where
  "update_first P g [] = []"
| "update_first P g (x # xs) = (if P x then g x # xs else x # update_first P g xs)"

section \<open>Upload (api/routes/upload.py, services/storage.py)\<close>

text \<open>
  The library functions the upload paths call (\<open>filetype.guess\<close>,
  \<open>mimetypes.guess_type\<close>, the \<open>suffix\<close> of a \<open>Path\<close>, \<open>str.lower\<close> and the
  hex digest of \<open>hashlib.sha256\<close>), and what the outside world answers during one
  request: the identifier \<open>uuid.uuid4()\<close> draws, the Supabase client that
  \<open>init_supabase\<close> leaves in \<open>_supabase_client\<close> (\<open>None\<close> when the environment names
  no project or the client cannot be created), the values the environment gives to
  the settings, and whether the storage client's \<open>upload\<close> raises or which status
  code its response carries.
\<close>

record libs =
  filetype_guess :: "bytes \<Rightarrow> error + string option"
  guess_type :: "string \<Rightarrow> string option"
  path_suffix :: "string \<Rightarrow> string"
  str_lower :: "string \<Rightarrow> string"
  sha256_hexdigest :: "bytes \<Rightarrow> string"

record upload_run =
  uuid4 :: string
  supabase_client :: "unit option"
  settings_value :: "string \<Rightarrow> string option"
  storage_upload :: "error + nat"

text \<open>
  The attributes that the class \<open>Settings\<close> of core/config.py declares. Reading any
  other attribute of the \<open>settings\<close> object raises \<open>AttributeError\<close>.
\<close>

definition get_supabase :: "upload_run \<Rightarrow> error + unit" where
  "get_supabase run =
     (case supabase_client run of
        None \<Rightarrow> Inl (Raised ''RuntimeError: Supabase client is not initialized'')
      | Some client \<Rightarrow> Inr client)"

definition settings_fields :: "string list" where
  "settings_fields =
     [''DATABASE_URL'', ''STORAGE_TYPE'', ''SUPABASE_URL'', ''SUPABASE_KEY'',
      ''SUPABASE_STORAGE_BUCKET'', ''S3_BUCKET_NAME'', ''S3_ACCESS_KEY'', ''S3_SECRET_KEY'',
      ''S3_REGION'', ''MINIO_ENDPOINT'', ''MINIO_ACCESS_KEY'', ''MINIO_SECRET_KEY'',
      ''MINIO_BUCKET_NAME'', ''LOCAL_STORAGE_PATH'', ''SECRET_KEY'', ''ALGORITHM'',
      ''ACCESS_TOKEN_EXPIRE_MINUTES'', ''MAX_FILE_SIZE'', ''ALLOWED_EXTENSIONS'', ''API_V1_STR'',
      ''PROJECT_NAME'', ''CASIA_MODEL_PATH'']"

definition settings_getattr :: "upload_run \<Rightarrow> string \<Rightarrow> error + string option" where
  "settings_getattr run name =
     (if name \<in> set settings_fields then Inr (settings_value run name)
      else Inl (Raised (''AttributeError: Settings object has no attribute '' @ name)))"

text \<open>
  \<open>StorageService.__init__\<close>: the client first, then the bucket name, which must not
  be empty. The value is the bucket name of the new service.
\<close>

definition storage_service_init :: "upload_run \<Rightarrow> error + string" where
  "storage_service_init run =
     (case get_supabase run of
        Inl e \<Rightarrow> Inl e
      | Inr client \<Rightarrow>
          (case settings_getattr run ''SUPABASE_BUCKET_NAME'' of
             Inl e \<Rightarrow> Inl e
           | Inr None \<Rightarrow>
               Inl (Raised ''ValueError: SUPABASE_BUCKET_NAME is not set in the environment settings.'')
           | Inr (Some bucket_name) \<Rightarrow>
               if bucket_name = [] then
                 Inl (Raised ''ValueError: SUPABASE_BUCKET_NAME is not set in the environment settings.'')
               else Inr bucket_name))"

text \<open>
  The server process: the system together with the module variable
  \<open>_storage_service_instance\<close> of services/storage.py, which is \<open>None\<close> when the
  process starts. \<open>get_storage_service\<close> builds the service on the first call that
  finds no instance, and keeps it only when the constructor returns.
\<close>

record process = system +
  storage_service_instance :: "string option"

definition get_storage_service :: "upload_run \<Rightarrow> process \<Rightarrow> (error + string) \<times> process" where
  "get_storage_service run p =
     (case storage_service_instance p of
        Some service \<Rightarrow> (Inr service, p)
      | None \<Rightarrow>
          (case storage_service_init run of
             Inl e \<Rightarrow> (Inl e, p)
           | Inr service \<Rightarrow> (Inr service, p\<lparr>storage_service_instance := Some service\<rparr>)))"

definition MAX_FILE_SIZE :: nat where
  "MAX_FILE_SIZE = 100 * 1024 * 1024"

definition ALLOWED_EXTENSIONS :: "string list" where
  "ALLOWED_EXTENSIONS = [''.pdf'', ''.jpg'', ''.jpeg'', ''.png'', ''.gif'', ''.bmp'', ''.tiff'']"

text \<open>Python's \<open>a or b\<close> on strings, and the \<open>repr\<close> of a list of strings.\<close>

definition or_else :: "string \<Rightarrow> string \<Rightarrow> string" where
  "or_else a b = (if a \<noteq> [] then a else b)"

fun join :: "string \<Rightarrow> string list \<Rightarrow> string" where
  "join sep [] = []"
| "join sep [x] = x"
| "join sep (x # y # ys) = x @ sep @ join sep (y # ys)"

definition repr_list :: "string list \<Rightarrow> string" where
  "repr_list xs = ''['' @ join '', '' (map (\<lambda>x. [CHR 0x27] @ x @ [CHR 0x27]) xs) @ '']''"

text \<open>\<open>_detect_mime_type\<close>: any exception of the library gives the empty string.\<close>

definition detect_mime_type :: "libs \<Rightarrow> bytes \<Rightarrow> string" where
  "detect_mime_type L file_content =
     (case filetype_guess L file_content of
        Inl e \<Rightarrow> []
      | Inr None \<Rightarrow> []
      | Inr (Some mime) \<Rightarrow> mime)"

definition mime_type_of :: "libs \<Rightarrow> bytes \<Rightarrow> string \<Rightarrow> string" where
  "mime_type_of L file_content name =
     or_else (detect_mime_type L file_content)
       (or_else (case guess_type L name of Some m \<Rightarrow> m | None \<Rightarrow> []) [])"

text \<open>\<open>validate_file_type\<close>.\<close>

definition validate_file_type :: "libs \<Rightarrow> bytes \<Rightarrow> string \<Rightarrow> error + string" where
  "validate_file_type L file_content name =
     (let mime = mime_type_of L file_content name;
          file_extension = str_lower L (path_suffix L name)
      in if file_extension \<notin> set ALLOWED_EXTENSIONS then
           Inl (HTTPException 400
                  (''File type '' @ file_extension @ '' not allowed. Allowed types: ''
                   @ repr_list ALLOWED_EXTENSIONS))
         else if file_extension = ''.pdf'' then
           (if mime \<noteq> ''application/pdf'' then Inl (HTTPException 400 ''Invalid PDF file'')
            else Inr ''pdf'')
         else if file_extension \<in> set [''.jpg'', ''.jpeg'', ''.png'', ''.gif'', ''.bmp'', ''.tiff''] then
           (if \<not> prefix ''image/'' mime then Inl (HTTPException 400 ''Invalid image file'')
            else Inr ''image'')
         else Inl (HTTPException 400 (''Unsupported file type: '' @ file_extension)))"

text \<open>\<open>StorageService.save_file\<close>.\<close>

record storage_metadata =
  sm_file_id :: string
  sm_filename :: string
  sm_original_filename :: string
  sm_file_type :: string
  sm_file_hash :: string
  sm_storage_path :: string
  sm_storage_type :: string

definition save_file :: "libs \<Rightarrow> upload_run \<Rightarrow> bytes \<Rightarrow> string \<Rightarrow> string \<Rightarrow> error + storage_metadata" where
  "save_file L run content original_name ftype =
     (let fid = uuid4 run;
          fhash = sha256_hexdigest L content;
          file_extension =
            (if CHR ''.'' \<in> set original_name
             then rev (takeWhile (\<lambda>c. c \<noteq> CHR ''.'') (rev original_name)) else []);
          storage_filename = (if file_extension \<noteq> [] then fid @ ''.'' @ file_extension else fid);
          spath = ftype @ ''/'' @ storage_filename
      in case storage_upload run of
           Inl e \<Rightarrow> Inl e
         | Inr status_code \<Rightarrow>
             if status_code \<noteq> 200 then Inl (Raised ''Failed to upload to Supabase Storage'')
             else Inr \<lparr>sm_file_id = fid, sm_filename = storage_filename,
                       sm_original_filename = original_name, sm_file_type = ftype,
                       sm_file_hash = fhash, sm_storage_path = spath,
                       sm_storage_type = ''supabase''\<rparr>)"

record upload_response =
  up_file_id :: string
  up_filename :: string
  up_file_type :: string
  up_file_size :: nat
  up_status :: string
  up_message :: string

text \<open>
  The body of the \<open>try\<close> block of \<open>upload_file\<close>. The column \<open>file_id\<close> is declared
  unique, so committing a row whose identifier is already in the table raises.
\<close>

definition upload_file_body ::
    "libs \<Rightarrow> upload_run \<Rightarrow> string \<times> bytes \<Rightarrow> process \<Rightarrow> (error + upload_response) \<times> process" where
  "upload_file_body L run upload db =
     (let (name, file_content) = upload in
      if length file_content > MAX_FILE_SIZE then
        (Inl (HTTPException 413 (''File size exceeds maximum allowed size of ''
                                 @ str_nat MAX_FILE_SIZE @ '' bytes'')), db)
      else case validate_file_type L file_content name of
        Inl e \<Rightarrow> (Inl e, db)
      | Inr ftype \<Rightarrow>
          (case get_storage_service run db of
             (Inl e, db1) \<Rightarrow> (Inl e, db1)
           | (Inr service, db1) \<Rightarrow>
               (case save_file L run file_content name ftype of
                  Inl e \<Rightarrow> (Inl e, db1)
                | Inr meta \<Rightarrow>
                    (let db_file =
                           \<lparr>file_id = sm_file_id meta,
                            filename = sm_filename meta,
                            original_filename = sm_original_filename meta,
                            file_type = sm_file_type meta,
                            mime_type = mime_type_of L file_content name,
                            file_size = length file_content,
                            file_hash = sm_file_hash meta,
                            storage_path = sm_storage_path meta,
                            storage_type = sm_storage_type meta,
                            verdict = None,
                            confidence_score = None,
                            analysis_status = ''pending''\<rparr>
                     in if list_ex (\<lambda>f. file_id f = file_id db_file) (files db1) then
                          (Inl (Raised ''IntegrityError: files.file_id''), db1)
                        else
                          (Inr \<lparr>up_file_id = file_id db_file,
                                up_filename = original_filename db_file,
                                up_file_type = file_type db_file,
                                up_file_size = file_size db_file,
                                up_status = ''uploaded'',
                                up_message = ''File uploaded successfully. Ready for analysis.''\<rparr>,
                           db1\<lparr>files := files db1 @ [db_file]\<rparr>)))))"

text \<open>
  \<open>upload_file\<close>: an \<open>HTTPException\<close> passes through, any other exception becomes the
  status 500.
\<close>

definition upload_file ::
    "libs \<Rightarrow> upload_run \<Rightarrow> string \<times> bytes \<Rightarrow> process \<Rightarrow> (error + upload_response) \<times> process" where
  "upload_file L run upload db =
     (case upload_file_body L run upload db of
        (Inl (HTTPException code detail), db') \<Rightarrow> (Inl (HTTPException code detail), db')
      | (Inl (Raised msg), db') \<Rightarrow> (Inl (HTTPException 500 ''Failed to upload file''), db')
      | (Inr response, db') \<Rightarrow> (Inr response, db'))"

section \<open>Analysis requests (api/routes/analyze.py)\<close>

record analyze_response =
  ar_file_id :: string
  ar_status :: string
  ar_message :: string

text \<open>\<open>analyze_pdf\<close>, with a database that answers.\<close>

definition analyze_pdf :: "string \<Rightarrow> system \<Rightarrow> (error + analyze_response) \<times> system" where
  "analyze_pdf fid st =
     (case find (\<lambda>f. file_id f = fid) (files st) of
        None \<Rightarrow> (Inl (HTTPException 404 ''File not found''), st)
      | Some db_file \<Rightarrow>
          if file_type db_file \<noteq> ''pdf'' then
            (Inl (HTTPException 400 ''File is not a PDF''), st)
          else if analysis_status db_file = ''processing'' then
            (Inr \<lparr>ar_file_id = fid, ar_status = ''processing'',
                  ar_message = ''PDF analysis already in progress''\<rparr>, st)
          else
            (Inr \<lparr>ar_file_id = fid, ar_status = ''processing'',
                  ar_message = ''PDF analysis started''\<rparr>,
             st\<lparr>files := update_first (\<lambda>f. file_id f = fid)
                            (\<lambda>f. f\<lparr>analysis_status := ''processing''\<rparr>) (files st),
                tasks := tasks st @ [Run_pdf_analysis fid (storage_path db_file)]\<rparr>))"

text \<open>\<open>analyze_image\<close> of the route module; the service method above has the same name.\<close>

definition analyze_image_route :: "string \<Rightarrow> system \<Rightarrow> (error + analyze_response) \<times> system" where
  "analyze_image_route fid st =
     (case find (\<lambda>f. file_id f = fid) (files st) of
        None \<Rightarrow> (Inl (HTTPException 404 ''File not found''), st)
      | Some db_file \<Rightarrow>
          if file_type db_file \<noteq> ''image'' then
            (Inl (HTTPException 400 ''File is not an image''), st)
          else if analysis_status db_file = ''processing'' then
            (Inr \<lparr>ar_file_id = fid, ar_status = ''processing'',
                  ar_message = ''Image analysis already in progress''\<rparr>, st)
          else
            (Inr \<lparr>ar_file_id = fid, ar_status = ''processing'',
                  ar_message = ''Image analysis started''\<rparr>,
             st\<lparr>files := update_first (\<lambda>f. file_id f = fid)
                            (\<lambda>f. f\<lparr>analysis_status := ''processing''\<rparr>) (files st),
                tasks := tasks st @ [Run_image_analysis fid (storage_path db_file)]\<rparr>))"

section \<open>Public upload (api/routes/public.py)\<close>

text \<open>\<open>_get_file_type\<close>: by content type when there is one, else by the file name.\<close>

definition file_type_by_name :: "libs \<Rightarrow> string \<Rightarrow> string" where
  "file_type_by_name L name =
     (let lower = str_lower L name in
      if list_ex (\<lambda>e. suffix e lower) [''.jpg'', ''.jpeg'', ''.png'', ''.bmp'', ''.tiff'', ''.webp'']
      then ''image''
      else if list_ex (\<lambda>e. suffix e lower) [''.mp4'', ''.avi'', ''.mov'', ''.mkv'', ''.webm'']
      then ''video''
      else if list_ex (\<lambda>e. suffix e lower) [''.mp3'', ''.wav'', ''.flac'', ''.aac'', ''.ogg'']
      then ''audio''
      else if suffix ''.pdf'' lower then ''pdf''
      else ''unknown'')"

definition get_file_type :: "libs \<Rightarrow> string \<Rightarrow> string \<Rightarrow> string" where
  "get_file_type L name content_type =
     (if content_type \<noteq> [] then
        (if prefix ''image/'' content_type then ''image''
         else if prefix ''video/'' content_type then ''video''
         else if prefix ''audio/'' content_type then ''audio''
         else if content_type = ''application/pdf'' then ''pdf''
         else file_type_by_name L name)
      else file_type_by_name L name)"

text \<open>
  One request to \<open>/public/upload\<close>: the answers of the storage service as before, the
  identifier and the outcome of the write of the local fallback, the identifier the
  column default of \<open>file_id\<close> draws for the new row, and whether a \<open>BackgroundTasks\<close>
  object was passed in.
\<close>

record public_run =
  storage_run :: upload_run
  local_file_id :: string
  local_write :: "error + unit"
  row_file_id :: string
  has_background_tasks :: bool

text \<open>
  The two answers of the route: the existing row (\<open>file_id\<close>, \<open>file_hash\<close>, \<open>status\<close>)
  with \<open>cached: True\<close>, or the new row (\<open>file_hash\<close>, \<open>file_id\<close>, \<open>storage\<close>); the
  \<open>metadata\<close> dictionary of the latter repeats columns of the row and is left out.
\<close>

datatype public_response =
    File_already_uploaded string string string
  | File_uploaded string string string

text \<open>
  The storage step of the route: the storage service when it can be had and stores the
  file, the local directory otherwise, and no metadata when that fails too.
\<close>

definition public_storage_metadata ::
    "libs \<Rightarrow> public_run \<Rightarrow> string \<Rightarrow> bytes \<Rightarrow> string \<Rightarrow> process
       \<Rightarrow> storage_metadata option \<times> process" where
  "public_storage_metadata L run name file_content ftype db =
     (let local =
            (case local_write run of
               Inl e \<Rightarrow> None
             | Inr u \<Rightarrow>
                 (let local_name = local_file_id run @ path_suffix L name in
                  Some \<lparr>sm_file_id = local_file_id run, sm_filename = local_name,
                        sm_original_filename = name, sm_file_type = ftype,
                        sm_file_hash = sha256_hexdigest L file_content,
                        sm_storage_path = ''uploads/'' @ local_name,
                        sm_storage_type = ''local''\<rparr>))
      in case get_storage_service (storage_run run) db of
           (Inl e, db1) \<Rightarrow> (local, db1)
         | (Inr service, db1) \<Rightarrow>
             (case save_file L (storage_run run) file_content name ftype of
                Inl e \<Rightarrow> (local, db1)
              | Inr meta \<Rightarrow> (Some meta, db1)))"

text \<open>The body of the \<open>try\<close> block of \<open>upload_file\<close> in public.py.\<close>

definition public_upload_file_body ::
    "libs \<Rightarrow> public_run \<Rightarrow> string \<times> string option \<times> bytes \<Rightarrow> process
       \<Rightarrow> (error + public_response) \<times> process" where
  "public_upload_file_body L run upload db =
     (let (name, content_type, file_content) = upload;
          fhash = sha256_hexdigest L file_content;
          ftype = get_file_type L name (case content_type of Some ct \<Rightarrow> ct | None \<Rightarrow> [])
      in if ftype = ''unknown'' then
           (Inl (HTTPException 400
                   (''Unsupported file type: ''
                    @ (case content_type of Some ct \<Rightarrow> ct | None \<Rightarrow> ''None''))), db)
         else
           (let (storage_meta, db1) = public_storage_metadata L run name file_content ftype db in
            case find (\<lambda>f. file_hash f = fhash) (files db1) of
              Some existing_db \<Rightarrow>
                (Inr (File_already_uploaded (file_id existing_db) (file_hash existing_db)
                        (analysis_status existing_db)), db1)
            | None \<Rightarrow>
                (let db_file =
                       \<lparr>file_id = row_file_id run,
                        filename = (case storage_meta of Some m \<Rightarrow> sm_filename m | None \<Rightarrow> name),
                        original_filename = name,
                        file_type = ftype,
                        mime_type = or_else (case content_type of Some ct \<Rightarrow> ct | None \<Rightarrow> [])
                                      ''application/octet-stream'',
                        file_size = length file_content,
                        file_hash = fhash,
                        storage_path =
                          (case storage_meta of Some m \<Rightarrow> sm_storage_path m | None \<Rightarrow> name),
                        storage_type =
                          (case storage_meta of Some m \<Rightarrow> sm_storage_type m | None \<Rightarrow> ''none''),
                        verdict = None,
                        confidence_score = None,
                        analysis_status = ''pending''\<rparr>
                 in if list_ex (\<lambda>f. file_id f = file_id db_file) (files db1) then
                      (Inl (Raised ''IntegrityError: files.file_id''), db1)
                    else
                      (Inr (File_uploaded fhash (file_id db_file) (storage_type db_file)),
                       db1\<lparr>files := files db1 @ [db_file],
                           tasks := tasks db1 @
                            (if has_background_tasks run then
                               (if file_type db_file = ''pdf'' then
                                  [Run_public_pdf_analysis (file_id db_file) (storage_path db_file)]
                                else if file_type db_file = ''image'' then
                                  [Run_public_image_analysis (file_id db_file) (storage_path db_file)]
                                else [])
                             else [])\<rparr>))))"

definition public_upload_file ::
    "libs \<Rightarrow> public_run \<Rightarrow> string \<times> string option \<times> bytes \<Rightarrow> process
       \<Rightarrow> (error + public_response) \<times> process" where
  "public_upload_file L run upload db =
     (case public_upload_file_body L run upload db of
        (Inl (HTTPException code detail), db') \<Rightarrow> (Inl (HTTPException code detail), db')
      | (Inl (Raised msg), db') \<Rightarrow> (Inl (HTTPException 500 (''Upload failed: '' @ msg)), db')
      | (Inr response, db') \<Rightarrow> (Inr response, db'))"

section \<open>Auxiliary definitions for the statements\<close>

subsection \<open>Weights of findings\<close>

text \<open>
  The amount one suspicious object, and one anomaly, adds to the risk score, as a
  function of its own: the loops above add it inline.
\<close>

definition object_weight :: "suspicious_object \<Rightarrow> int" where
  "object_weight obj =
     (if so_risk_level obj = ''high'' then 3 else if so_risk_level obj = ''medium'' then 2 else 1)"

definition anomaly_weight :: "anomaly \<Rightarrow> int" where
  "anomaly_weight a =
     (if an_severity a = ''high'' then 3 else if an_severity a = ''medium'' then 2 else 1)"

subsection \<open>Sample inputs\<close>

text \<open>
  More dictionaries that the source builds: the anomaly of \<open>_detect_anomalies\<close> for
  a document without producer and creator, and the structure elements of
  \<open>_analyze_pdf_structure\<close> for a document with JavaScript among its names and for
  a document with a form.
\<close>

definition metadata_missing :: anomaly where
  "metadata_missing =
     \<lparr>an_type = ''metadata_missing'',
      an_description = ''Missing producer/creator information'',
      an_severity = ''medium'',
      an_explanation = Some (''Legitimate documents typically have producer/creator metadata. '' @
                             ''Missing data may indicate file tampering or creation with malicious tools.'')\<rparr>"

definition javascript_in_names :: structure_element where
  "javascript_in_names =
     \<lparr>el_element = ''JavaScript found in document names'',
      el_risk = ''high'',
      el_explanation = ''JavaScript can execute malicious code automatically''\<rparr>"

definition interactive_forms :: structure_element where
  "interactive_forms =
     \<lparr>el_element = ''Interactive forms detected'',
      el_risk = ''medium'',
      el_explanation = ''Forms can contain scripts and submit data to external sources''\<rparr>"

text \<open>A scan that found one JavaScript object, and a scan that could not run.\<close>

definition js_report :: pdfid_results where
  "js_report =
     Pdfid_ok \<lparr>objects = [(''/JS'', 1)],
               suspicious_objects = [suspicious_entry ''/JS'' 1],
               total_objects = 1,
               security_flags = [''High-risk object detected: /JS (count: 1)'']\<rparr>"

definition no_pdfid :: pdfid_results where
  "no_pdfid = Pdfid_error ''PDFiD not installed''"

text \<open>
  A document without findings and the same document with JavaScript among its names.
  Then documents whose modification date lies before their creation date: one with a
  producer, one without producer and creator, and one of the latter with a form.
\<close>

definition plain_report :: pikepdf_results where
  "plain_report =
     Pikepdf_ok \<lparr>metadata = [(''/Producer'', ''Adobe PDF Library'')],
                 suspicious_elements = [],
                 anomalies = []\<rparr>"

definition scripted_report :: pikepdf_results where
  "scripted_report =
     Pikepdf_ok \<lparr>metadata = [(''/Producer'', ''Adobe PDF Library'')],
                 suspicious_elements = [javascript_in_names],
                 anomalies = []\<rparr>"

definition backdated_report :: pikepdf_results where
  "backdated_report =
     Pikepdf_ok \<lparr>metadata = [(''/CreationDate'', ''D:20240102000000''),
                             (''/ModDate'', ''D:20240101000000''),
                             (''/Producer'', ''Adobe PDF Library'')],
                 suspicious_elements = [],
                 anomalies = [time_anomaly]\<rparr>"

definition backdated_anonymous_report :: pikepdf_results where
  "backdated_anonymous_report =
     Pikepdf_ok \<lparr>metadata = [(''/CreationDate'', ''D:20240102000000''),
                             (''/ModDate'', ''D:20240101000000'')],
                 suspicious_elements = [],
                 anomalies = [time_anomaly, metadata_missing]\<rparr>"

definition backdated_anonymous_form_report :: pikepdf_results where
  "backdated_anonymous_form_report =
     Pikepdf_ok \<lparr>metadata = [(''/CreationDate'', ''D:20240102000000''),
                             (''/ModDate'', ''D:20240101000000'')],
                 suspicious_elements = [interactive_forms],
                 anomalies = [time_anomaly, metadata_missing]\<rparr>"

text \<open>An announcement with four red flags, negative sentiment and a revenue anomaly.\<close>

definition hyped_announcement :: analysis_results where
  "hyped_announcement =
     \<lparr>red_flags = Some [''promotional hype'', ''unrealistic projections'', ''vague language'',
                        ''overly optimistic claims''],
      sentiment_of = Some \<lparr>label = Some ''NEGATIVE'', score = Some 0.97\<rparr>,
      anomaly_detected = Some \<lparr>anomaly_flag = Some True, details = ''Found 1 anomalies''\<rparr>\<rparr>"

text \<open>Runs of the image extractors: a clean error map, an undecodable file, no model.\<close>

definition clean_ela_run :: ela_run where
  "clean_ela_run =
     \<lparr>ela_image = Inr (Inr \<lparr>high_error_pixels = 5, edge_pixels = 10, total_pixels = 100\<rparr>),
      heatmap = ''static/heatmaps/ela_heatmap_a_20240101_000000.png'',
      cleanup = Inr ()\<rparr>"

definition undecodable_ela_run :: ela_run where
  "undecodable_ela_run =
     \<lparr>ela_image = Inl (Raised ''cannot identify image file''), heatmap = [], cleanup = Inr ()\<rparr>"

definition no_model_run :: cnn_run where
  "no_model_run = \<lparr>model_loaded = False, inference = Inl (Raised ''model is None'')\<rparr>"

definition failing_model_run :: cnn_run where
  "failing_model_run = \<lparr>model_loaded = True, inference = Inl (Raised ''cannot identify image file'')\<rparr>"

definition tampered_model_run :: cnn_run where
  "tampered_model_run = \<lparr>model_loaded = True, inference = Inr (1, 0.8)\<rparr>"

text \<open>
  Stand-ins for the libraries of the upload paths. They answer as the libraries do on
  the arguments that occur below: the empty byte string has no magic number and the
  SHA-256 digest shown, and the two file names are in lower case and end in \<open>.pdf\<close>.
\<close>

definition sample_libs :: libs where
  "sample_libs =
     \<lparr>filetype_guess = (\<lambda>file_content. Inr None),
      guess_type = (\<lambda>name. if name = ''report.pdf'' \<or> name = ''copy.pdf''
                             then Some ''application/pdf'' else None),
      path_suffix = (\<lambda>name. if name = ''report.pdf'' \<or> name = ''copy.pdf''
                              then ''.pdf'' else []),
      str_lower = (\<lambda>s. s),
      sha256_hexdigest = (\<lambda>file_content. if file_content = []
         then ''e3b0c44298fc1c149afbf4c8996fb92427ae41e4649b934ca495991b7852b855'' else [])\<rparr>"

text \<open>
  Two requests in an environment that has a Supabase client and names a bucket under
  the setting the class declares, and the process as it starts.
\<close>

definition sample_settings :: "string \<Rightarrow> string option" where
  "sample_settings name = (if name = ''SUPABASE_STORAGE_BUCKET'' then Some ''uploads'' else None)"

definition first_run :: upload_run where
  "first_run = \<lparr>uuid4 = ''11111111-1111-4111-8111-111111111111'',
                 supabase_client = Some (), settings_value = sample_settings,
                 storage_upload = Inr 200\<rparr>"

definition second_run :: upload_run where
  "second_run = \<lparr>uuid4 = ''22222222-2222-4222-8222-222222222222'',
                  supabase_client = Some (), settings_value = sample_settings,
                  storage_upload = Inr 200\<rparr>"

definition initial_process :: process where
  "initial_process = \<lparr>files = [], tasks = [], storage_service_instance = None\<rparr>"

text \<open>A pending document row, and the rows it becomes as its analysis proceeds.\<close>

definition pending_pdf :: file_row where
  "pending_pdf =
     \<lparr>file_id = ''11111111-1111-4111-8111-111111111111'',
      filename = ''11111111-1111-4111-8111-111111111111.pdf'',
      original_filename = ''report.pdf'',
      file_type = ''pdf'',
      mime_type = ''application/pdf'',
      file_size = 0,
      file_hash = ''e3b0c44298fc1c149afbf4c8996fb92427ae41e4649b934ca495991b7852b855'',
      storage_path = ''pdf/11111111-1111-4111-8111-111111111111.pdf'',
      storage_type = ''supabase'',
      verdict = None,
      confidence_score = None,
      analysis_status = ''pending''\<rparr>"

definition processing_pdf :: file_row where
  "processing_pdf = pending_pdf\<lparr>analysis_status := ''processing''\<rparr>"

definition completed_pdf :: file_row where
  "completed_pdf =
     pending_pdf\<lparr>verdict := Some ''authentic'', confidence_score := Some 0.9,
                 analysis_status := ''completed''\<rparr>"

definition failed_image :: file_row where
  "failed_image =
     \<lparr>file_id = ''33333333-3333-4333-8333-333333333333'',
      filename = ''33333333-3333-4333-8333-333333333333.png'',
      original_filename = ''photo.png'',
      file_type = ''image'',
      mime_type = ''image/png'',
      file_size = 67,
      file_hash = ''0f4636c78f65d3639ece5a064b5ae753e3408614a14fb18ab4d7540d2c248543'',
      storage_path = ''image/33333333-3333-4333-8333-333333333333.png'',
      storage_type = ''supabase'',
      verdict = None,
      confidence_score = None,
      analysis_status = ''failed''\<rparr>"

definition processing_image :: file_row where
  "processing_image = failed_image\<lparr>analysis_status := ''processing''\<rparr>"

text \<open>
  Two requests to the public upload route, and the row the first of them creates: the
  file goes to the local directory, since no storage service can be had.
\<close>

definition public_first_run :: public_run where
  "public_first_run =
     \<lparr>storage_run = first_run,
      local_file_id = ''44444444-4444-4444-8444-444444444444'',
      local_write = Inr (),
      row_file_id = ''55555555-5555-4555-8555-555555555555'',
      has_background_tasks = True\<rparr>"

definition public_second_run :: public_run where
  "public_second_run =
     \<lparr>storage_run = second_run,
      local_file_id = ''66666666-6666-4666-8666-666666666666'',
      local_write = Inr (),
      row_file_id = ''77777777-7777-4777-8777-777777777777'',
      has_background_tasks = True\<rparr>"

definition public_pending_pdf :: file_row where
  "public_pending_pdf =
     \<lparr>file_id = ''55555555-5555-4555-8555-555555555555'',
      filename = ''44444444-4444-4444-8444-444444444444.pdf'',
      original_filename = ''report.pdf'',
      file_type = ''pdf'',
      mime_type = ''application/pdf'',
      file_size = 0,
      file_hash = ''e3b0c44298fc1c149afbf4c8996fb92427ae41e4649b934ca495991b7852b855'',
      storage_path = ''uploads/44444444-4444-4444-8444-444444444444.pdf'',
      storage_type = ''local'',
      verdict = None,
      confidence_score = None,
      analysis_status = ''pending''\<rparr>"

section \<open>Results on image forensics\<close>

subsection \<open>The extractors always return\<close>

lemma run_ela_analysis_returns: "\<exists>r. run_ela_analysis w = Inr r"
  unfolding run_ela_analysis_def
  by (cases "run_ela_analysis_body w") (simp_all only: sum.case, blast+)

lemma run_cnn_analysis_returns: "\<exists>r. run_cnn_analysis w = Inr r"
  unfolding run_cnn_analysis_def
  by (cases "run_cnn_analysis_body w") (simp_all only: sum.case, blast+)

lemma run_ela_analysis_body_raises:
  "(\<exists>e. run_ela_analysis_body w = Inl e) \<longleftrightarrow>
     (\<exists>e. ela_image w = Inl e) \<or> (\<exists>e. cleanup w = Inl e)"
  by (auto simp: run_ela_analysis_body_def Let_def split: sum.splits)

lemma analyze_image_returns:
  assumes io: "is_cloud_path file_path \<longrightarrow> fetch w = Inr () \<and> unlink_temp w = Inr ()"
    and e: "run_ela_analysis (ela w) = Inr (er, ec, hp)"
    and c: "run_cnn_analysis (cnn w) = Inr (cr, cc)"
  shows "analyze_image file_path w =
           Inr \<lparr>verdict_of = fst (combine_results er ec cr cc),
                confidence_score_of = snd (combine_results er ec cr cc),
                ela_result_of = er, ela_confidence_of = ec, ela_heatmap_path_of = hp,
                cnn_result_of = cr, cnn_confidence_of = cc\<rparr>"
  using io e c
  by (cases "combine_results er ec cr cc") (simp add: analyze_image_def)

lemma local_path: "\<not> is_cloud_path ''image/a.png''"
  by (simp add: is_cloud_path_def)

subsection \<open>Combination rule\<close>

text \<open>
  Claim C1. When the two signals name the same category, the combined result is that
  category with confidence \<open>0.6 * e + 0.4 * c\<close>. When they name different categories
  and one confidence is strictly higher, the combined result is the category of that
  signal with its confidence multiplied by 0.9. ELA (suspicious, 0.9) with classifier
  (authentic, 0.5) gives (suspicious, 0.81); ELA (authentic, 0.8) with classifier
  (authentic, 0.6) gives (authentic, 0.72).
\<close>

theorem combine_results_rule:
  "(er = cr \<longrightarrow> combine_results er e cr c = (er, 0.6 * e + 0.4 * c)) \<and>
   (er \<noteq> cr \<and> c < e \<longrightarrow> combine_results er e cr c = (er, 0.9 * e)) \<and>
   (er \<noteq> cr \<and> e < c \<longrightarrow> combine_results er e cr c = (cr, 0.9 * c)) \<and>
   combine_results ''suspicious'' 0.9 ''authentic'' 0.5 = (''suspicious'', 0.81) \<and>
   combine_results ''authentic'' 0.8 ''authentic'' 0.6 = (''authentic'', 0.72)"
  by (simp add: combine_results_def)

theorem combine_results_rule_witness:
  "combine_results ''authentic'' 0.7 ''authentic'' 0.5 = (''authentic'', 0.6 * 0.7 + 0.4 * 0.5) \<and>
   ''suspicious'' \<noteq> ''authentic'' \<and> (0.5::real) < 0.9 \<and>
   combine_results ''suspicious'' 0.9 ''authentic'' 0.5 = (''suspicious'', 0.9 * 0.9) \<and>
   ''authentic'' \<noteq> ''suspicious'' \<and> (0.6::real) < 0.8 \<and>
   combine_results ''authentic'' 0.6 ''suspicious'' 0.8 = (''suspicious'', 0.9 * 0.8)"
  using combine_results_rule [of "''authentic''" "''authentic''" "0.7" "0.5"]
    combine_results_rule [of "''suspicious''" "''authentic''" "0.9" "0.5"]
    combine_results_rule [of "''authentic''" "''suspicious''" "0.6" "0.8"]
  by simp

text \<open>
  The claim leaves open what happens when the categories differ and the confidences
  are equal. The source tests \<open>ela_confidence > cnn_confidence\<close>, so the classifier wins.
\<close>

lemma combine_results_tie:
  "er \<noteq> cr \<Longrightarrow> combine_results er e cr e = (cr, 0.9 * e)"
  by (simp add: combine_results_def)

subsection \<open>Rounding to a double\<close>

lemma scale_round_numeral:
  "scale_round (numeral k) x =
     (if x \<ge> 2 ^ 53 then 2 * scale_round (pred_numeral k) (x / 2)
      else if x < 2 ^ 52 then scale_round (pred_numeral k) (2 * x) / 2
      else of_int (rne x))"
  by (simp add: numeral_eq_Suc)

lemma rne_close: "\<bar>of_int (rne m) - m\<bar> \<le> 1 / 2"
proof -
  have "of_int \<lfloor>m\<rfloor> \<le> m" "m < of_int \<lfloor>m\<rfloor> + 1"
    by linarith+
  then show ?thesis
    by (auto simp: rne_def Let_def)
qed

lemma double_close: "\<bar>s - y / 2\<bar> \<le> c / 2 \<Longrightarrow> \<bar>2 * s - y\<bar> \<le> (c::real)"
  by arith

lemma half_close: "\<bar>s - 2 * y\<bar> \<le> 2 * c \<Longrightarrow> \<bar>s / 2 - y\<bar> \<le> (c::real)"
  by arith

lemma scale_round_close:
  "0 < x \<Longrightarrow> \<bar>scale_round n x - x\<bar> \<le> x / 2 ^ 53"
proof (induction n arbitrary: x)
  case 0
  then show ?case by simp
next
  case (Suc n)
  show ?case
  proof (cases "x \<ge> 2 ^ 53")
    case True
    from Suc.prems have "\<bar>scale_round n (x / 2) - x / 2\<bar> \<le> (x / 2) / 2 ^ 53"
      by (intro Suc.IH) simp
    then have "\<bar>scale_round n (x / 2) - x / 2\<bar> \<le> (x / 2 ^ 53) / 2"
      by (simp del: power_numeral)
    then have "\<bar>2 * scale_round n (x / 2) - x\<bar> \<le> x / 2 ^ 53"
      by (rule double_close)
    with True show ?thesis by (simp del: power_numeral)
  next
    case False
    show ?thesis
    proof (cases "x < 2 ^ 52")
      case True
      from Suc.prems have "\<bar>scale_round n (2 * x) - 2 * x\<bar> \<le> (2 * x) / 2 ^ 53"
        by (intro Suc.IH) simp
      then have "\<bar>scale_round n (2 * x) - 2 * x\<bar> \<le> 2 * (x / 2 ^ 53)"
        by (simp del: power_numeral)
      then have "\<bar>scale_round n (2 * x) / 2 - x\<bar> \<le> x / 2 ^ 53"
        by (rule half_close)
      with True False show ?thesis by (simp del: power_numeral)
    next
      case large: False
      have "1 / 2 \<le> x / 2 ^ 53"
        using large by simp
      with rne_close [of x] have "\<bar>of_int (rne x) - x\<bar> \<le> x / 2 ^ 53"
        by linarith
      with False large show ?thesis by (simp del: power_numeral)
    qed
  qed
qed

text \<open>One rounding moves a value by at most the fraction \<open>2 ^ -53\<close> of it.\<close>

lemma fl_close: "\<bar>fl x - x\<bar> \<le> \<bar>x\<bar> / 2 ^ 53"
proof -
  consider "x = 0" | "x < 0" | "0 < x" by linarith
  then show ?thesis
  proof cases
    case 1
    then show ?thesis by (simp add: fl_def)
  next
    case 2
    then have "\<bar>scale_round 1200 (- x) - (- x)\<bar> \<le> (- x) / 2 ^ 53"
      by (intro scale_round_close) simp
    with 2 show ?thesis by (simp add: fl_def del: power_numeral)
  next
    case 3
    with scale_round_close [of x 1200] show ?thesis by (simp add: fl_def del: power_numeral)
  qed
qed

text \<open>The decimal literals of the error level analysis as doubles.\<close>

lemmas double_eval =
  fadd_def fsub_def fmul_def fdiv_def fl_def scale_round_numeral rne_def Let_def

lemma double_literals:
  "fl 0.7 = 3152519739159347 / 2 ^ 52"
  "fl 0.3 = 5404319552844595 / 2 ^ 54"
  "fl 0.4 = 3602879701896397 / 2 ^ 53"
  "fl 0.5 = 1 / 2"
  "fl 0.6 = 5404319552844595 / 2 ^ 53"
  "fl 0.9 = 8106479329266893 / 2 ^ 53"
  "fl 0.95 = 4278419646001971 / 2 ^ 52"
  "fl 0.85 = 7656119366529843 / 2 ^ 53"
  by (simp_all add: double_eval)

lemma fmul_commute: "fmul a b = fmul b a"
  by (simp add: fmul_def mult.commute)

subsection \<open>Tampering score and the pixel-error signal\<close>

text \<open>
  Claim C5. For an error map with high-error pixel fraction \<open>r\<close> and edge-pixel density
  \<open>d\<close>, the tampering score is \<open>min 1 (10 * (0.7 * r + 0.3 * d))\<close>, and the signal of
  the pixel-error analyzer is (suspicious, \<open>min 0.95 (0.6 + 0.3 * score)\<close>) when the
  score is above 0.7, (suspicious, \<open>min 0.85 (0.5 + 0.3 * score)\<close>) when it is above 0.4
  and at most 0.7, and (authentic, \<open>max 0.6 (0.9 - 0.3 * score)\<close>) otherwise. Fraction,
  density, score and confidence are doubles: each literal is the double next to it and
  each operation is rounded, so the comparisons are those of the program. The range
  0.4 to 0.7 of the claim is read as the source tests it: 0.4 excluded, 0.7 included.
\<close>

theorem ela_signal:
  assumes "ela_image w = Inr (Inr px)" and "cleanup w = Inr ()" and "0 < total_pixels px"
    and "r = fdiv (fl (real (high_error_pixels px))) (fl (real (total_pixels px)))"
    and "d = fdiv (fl (real (edge_pixels px))) (fl (real (total_pixels px)))"
    and "ts = min 1 (fmul 10 (fadd (fmul (fl 0.7) r) (fmul (fl 0.3) d)))"
  shows "analyze_ela_patterns (Inr px) = ts \<and>
     run_ela_analysis w =
       Inr (if ts > fl 0.7 then
              (''suspicious'', min (fl 0.95) (fadd (fl 0.6) (fmul (fl 0.3) ts)), heatmap w)
            else if fl 0.4 < ts \<and> ts \<le> fl 0.7 then
              (''suspicious'', min (fl 0.85) (fadd (fl 0.5) (fmul (fl 0.3) ts)), heatmap w)
            else
              (''authentic'', max (fl 0.6) (fsub (fl 0.9) (fmul (fl 0.3) ts)), heatmap w))"
proof -
  have s: "analyze_ela_patterns (Inr px) = ts"
    unfolding assms(4-6) analyze_ela_patterns_def Let_def sum.case
    by (simp only: fmul_commute [of "fl 0.7"] fmul_commute [of "fl 0.3"] fmul_commute [of 10])
  have b: "run_ela_analysis_body w =
       Inr (if ts > fl 0.7 then
              (''suspicious'', min (fl 0.95) (fadd (fl 0.6) (fmul (fl 0.3) ts)), heatmap w)
            else if fl 0.4 < ts \<and> ts \<le> fl 0.7 then
              (''suspicious'', min (fl 0.85) (fadd (fl 0.5) (fmul (fl 0.3) ts)), heatmap w)
            else
              (''authentic'', max (fl 0.6) (fsub (fl 0.9) (fmul (fl 0.3) ts)), heatmap w))"
    unfolding run_ela_analysis_body_def assms(1,2) s Let_def sum.case
    by (simp only: fmul_commute [of "fl 0.3"] not_less if_distrib [of Inr] split: if_split)
       auto
  show ?thesis
    unfolding run_ela_analysis_def b sum.case using s by simp
qed

theorem ela_signal_witness:
  "ela_image clean_ela_run
     = Inr (Inr \<lparr>high_error_pixels = 5, edge_pixels = 10, total_pixels = 100\<rparr>) \<and>
   cleanup clean_ela_run = Inr () \<and>
   (0::nat) < 100 \<and>
   analyze_ela_patterns (Inr \<lparr>high_error_pixels = 5, edge_pixels = 10, total_pixels = 100\<rparr>)
     = 5854679515581645 / 2 ^ 53 \<and>
   fl 0.4 < 5854679515581645 / 2 ^ 53 \<and> 5854679515581645 / 2 ^ 53 \<le> fl 0.7 \<and>
   run_ela_analysis clean_ela_run
     = Inr (''suspicious'', 3130001741022495 / 2 ^ 52,
            ''static/heatmaps/ela_heatmap_a_20240101_000000.png'')"
proof -
  have a: "ela_image clean_ela_run
     = Inr (Inr \<lparr>high_error_pixels = 5, edge_pixels = 10, total_pixels = 100\<rparr>)"
    by (simp add: clean_ela_run_def)
  have b: "cleanup clean_ela_run = Inr ()"
    by (simp add: clean_ela_run_def)
  have c: "0 < total_pixels \<lparr>high_error_pixels = 5, edge_pixels = 10, total_pixels = 100\<rparr>"
    by simp
  have t: "min 1 (fmul 10 (fadd
             (fmul (fl 0.7) (fdiv (fl (real (high_error_pixels
                \<lparr>high_error_pixels = 5, edge_pixels = 10, total_pixels = 100\<rparr>)))
                (fl (real (total_pixels
                \<lparr>high_error_pixels = 5, edge_pixels = 10, total_pixels = 100\<rparr>)))))
             (fmul (fl 0.3) (fdiv (fl (real (edge_pixels
                \<lparr>high_error_pixels = 5, edge_pixels = 10, total_pixels = 100\<rparr>)))
                (fl (real (total_pixels
                \<lparr>high_error_pixels = 5, edge_pixels = 10, total_pixels = 100\<rparr>)))))))
           = 5854679515581645 / 2 ^ 53"
    by (simp add: double_eval)
  have i: "\<not> 5854679515581645 / 2 ^ 53 > fl 0.7" "fl 0.4 < 5854679515581645 / 2 ^ 53"
      "5854679515581645 / 2 ^ 53 \<le> fl 0.7"
    by (simp_all add: double_eval)
  have k: "min (fl 0.85) (fadd (fl 0.5) (fmul (fl 0.3) (5854679515581645 / 2 ^ 53)))
             = 3130001741022495 / 2 ^ 52"
    by (simp add: double_eval)
  have h: "heatmap clean_ela_run = ''static/heatmaps/ela_heatmap_a_20240101_000000.png''"
    by (simp add: clean_ela_run_def)
  note e = ela_signal [OF a b c refl refl refl, unfolded t]
  from e i have "run_ela_analysis clean_ela_run
     = Inr (''suspicious'', min (fl 0.85) (fadd (fl 0.5) (fmul (fl 0.3) (5854679515581645 / 2 ^ 53))),
            heatmap clean_ela_run)"
    by (simp only: if_False if_True simp_thms)
  then have r: "run_ela_analysis clean_ela_run
     = Inr (''suspicious'', 3130001741022495 / 2 ^ 52,
            ''static/heatmaps/ela_heatmap_a_20240101_000000.png'')"
    by (simp only: k h)
  from e have "analyze_ela_patterns
       (Inr \<lparr>high_error_pixels = 5, edge_pixels = 10, total_pixels = 100\<rparr>)
     = 5854679515581645 / 2 ^ 53"
    by (rule conjunct1)
  with a b i(2,3) r show ?thesis
    by (intro conjI) simp_all
qed

text \<open>
  Two error maps whose exact score is a threshold, 2/5 and 7/10. The rounded score lies
  just above it, so the first is suspicious and the second falls under the first formula.
\<close>

lemma ela_signal_at_thresholds:
  "analyze_ela_patterns (Inr \<lparr>high_error_pixels = 1, edge_pixels = 133, total_pixels = 1015\<rparr>)
     = 7205759403792795 / 2 ^ 54 \<and>
   fl 0.4 < 7205759403792795 / 2 ^ 54 \<and>
   run_ela_analysis
       \<lparr>ela_image = Inr (Inr \<lparr>high_error_pixels = 1, edge_pixels = 133, total_pixels = 1015\<rparr>),
        heatmap = [], cleanup = Inr ()\<rparr>
     = Inr (''suspicious'', 5584463537939415 / 2 ^ 53, []) \<and>
   analyze_ela_patterns (Inr \<lparr>high_error_pixels = 10, edge_pixels = 7, total_pixels = 130\<rparr>)
     = 6305039478318695 / 2 ^ 53 \<and>
   fl 0.7 < 6305039478318695 / 2 ^ 53 \<and>
   run_ela_analysis
       \<lparr>ela_image = Inr (Inr \<lparr>high_error_pixels = 10, edge_pixels = 7, total_pixels = 130\<rparr>),
        heatmap = [], cleanup = Inr ()\<rparr>
     = Inr (''suspicious'', 1823957849085051 / 2 ^ 51, [])"
proof -
  have a: "analyze_ela_patterns
             (Inr \<lparr>high_error_pixels = 1, edge_pixels = 133, total_pixels = 1015\<rparr>)
           = 7205759403792795 / 2 ^ 54"
    unfolding analyze_ela_patterns_def Let_def sum.case by (simp add: double_eval)
  have b: "analyze_ela_patterns
             (Inr \<lparr>high_error_pixels = 10, edge_pixels = 7, total_pixels = 130\<rparr>)
           = 6305039478318695 / 2 ^ 53"
    unfolding analyze_ela_patterns_def Let_def sum.case by (simp add: double_eval)
  have i: "\<not> 7205759403792795 / 2 ^ 54 > fl 0.7" "fl 0.4 < 7205759403792795 / 2 ^ 54"
      "fl 0.7 < 6305039478318695 / 2 ^ 53"
    by (simp_all add: double_eval)
  have c: "min (fl 0.85) (fadd (fl 0.5) (fmul (7205759403792795 / 2 ^ 54) (fl 0.3)))
             = 5584463537939415 / 2 ^ 53"
    by (simp add: double_eval)
  have d: "min (fl 0.95) (fadd (fl 0.6) (fmul (6305039478318695 / 2 ^ 53) (fl 0.3)))
             = 1823957849085051 / 2 ^ 51"
    by (simp add: double_eval)
  have r1: "run_ela_analysis
       \<lparr>ela_image = Inr (Inr \<lparr>high_error_pixels = 1, edge_pixels = 133, total_pixels = 1015\<rparr>),
        heatmap = [], cleanup = Inr ()\<rparr>
     = Inr (''suspicious'', 5584463537939415 / 2 ^ 53, [])"
    unfolding run_ela_analysis_def run_ela_analysis_body_def Let_def
    by (simp only: ela_run.simps sum.case a i c if_False if_True gt_ex simp_thms)
  have r2: "run_ela_analysis
       \<lparr>ela_image = Inr (Inr \<lparr>high_error_pixels = 10, edge_pixels = 7, total_pixels = 130\<rparr>),
        heatmap = [], cleanup = Inr ()\<rparr>
     = Inr (''suspicious'', 1823957849085051 / 2 ^ 51, [])"
    unfolding run_ela_analysis_def run_ela_analysis_body_def Let_def
    by (simp only: ela_run.simps sum.case b i d if_False if_True simp_thms)
  from a b i(2,3) r1 r2 show ?thesis
    by (intro conjI) simp_all
qed

subsection \<open>Failing extractors\<close>

text \<open>
  Claim C9. When no classifier model is loaded, or loading the image or running the
  network raises, the classifier signal is (authentic, 0.5). The classifier step
  returns on every run, and the image pipeline, once the file is at hand, returns a
  result that carries this signal.
\<close>

theorem cnn_fallback_neutral:
  assumes "\<not> model_loaded (cnn w) \<or> (\<exists>e. inference (cnn w) = Inl e)"
  shows "run_cnn_analysis (cnn w) = Inr (''authentic'', 0.5) \<and>
         (\<forall>v. \<exists>r. run_cnn_analysis v = Inr r) \<and>
         ((is_cloud_path file_path \<longrightarrow> fetch w = Inr () \<and> unlink_temp w = Inr ()) \<longrightarrow>
            (\<exists>res. analyze_image file_path w = Inr res \<and>
                   cnn_result_of res = ''authentic'' \<and> cnn_confidence_of res = 0.5))"
proof -
  have c: "run_cnn_analysis (cnn w) = Inr (''authentic'', 0.5)"
    using assms by (auto simp: run_cnn_analysis_def run_cnn_analysis_body_def)
  obtain er ec hp where e: "run_ela_analysis (ela w) = Inr (er, ec, hp)"
    using run_ela_analysis_returns [of "ela w"] by (metis prod_cases3)
  show ?thesis
    using c run_cnn_analysis_returns analyze_image_returns [OF _ e c] by simp
qed

theorem cnn_fallback_neutral_witness:
  "\<not> model_loaded no_model_run \<and>
   run_cnn_analysis no_model_run = Inr (''authentic'', 0.5) \<and>
   inference failing_model_run = Inl (Raised ''cannot identify image file'') \<and>
   run_cnn_analysis failing_model_run = Inr (''authentic'', 0.5) \<and>
   \<not> is_cloud_path ''image/a.png'' \<and>
   (\<exists>res. analyze_image ''image/a.png''
            \<lparr>fetch = Inr (), ela = clean_ela_run, cnn = no_model_run, unlink_temp = Inr ()\<rparr>
          = Inr res
      \<and> cnn_result_of res = ''authentic'' \<and> cnn_confidence_of res = 0.5)"
  using cnn_fallback_neutral
      [of "\<lparr>fetch = Inr (), ela = clean_ela_run, cnn = no_model_run, unlink_temp = Inr ()\<rparr>"
          "''image/a.png''"]
    cnn_fallback_neutral
      [of "\<lparr>fetch = Inr (), ela = clean_ela_run, cnn = failing_model_run, unlink_temp = Inr ()\<rparr>"
          "''image/a.png''"]
    local_path
  by (simp add: no_model_run_def failing_model_run_def)

text \<open>
  Claim C10. When the body of the pixel-error step raises (the file cannot be decoded,
  say), the step returns the signal (authentic, 0.5) with an empty heatmap path, and
  the image pipeline, once the file is at hand, returns a result that carries it.
\<close>

theorem ela_failure_neutral:
  assumes "run_ela_analysis_body (ela w) = Inl e"
  shows "run_ela_analysis (ela w) = Inr (''authentic'', 0.5, '''') \<and>
         ((is_cloud_path file_path \<longrightarrow> fetch w = Inr () \<and> unlink_temp w = Inr ()) \<longrightarrow>
            (\<exists>res. analyze_image file_path w = Inr res \<and> ela_result_of res = ''authentic'' \<and>
                   ela_confidence_of res = 0.5 \<and> ela_heatmap_path_of res = ''''))"
proof -
  have a: "run_ela_analysis (ela w) = Inr (''authentic'', 0.5, '''')"
    using assms by (simp add: run_ela_analysis_def)
  obtain cr cc where c: "run_cnn_analysis (cnn w) = Inr (cr, cc)"
    using run_cnn_analysis_returns [of "cnn w"] by (metis surj_pair)
  show ?thesis
    using a analyze_image_returns [OF _ a c] by simp
qed

theorem ela_failure_neutral_witness:
  "run_ela_analysis_body undecodable_ela_run = Inl (Raised ''cannot identify image file'') \<and>
   run_ela_analysis undecodable_ela_run = Inr (''authentic'', 0.5, '''') \<and>
   \<not> is_cloud_path ''image/a.png'' \<and>
   (\<exists>res. analyze_image ''image/a.png''
            \<lparr>fetch = Inr (), ela = undecodable_ela_run, cnn = tampered_model_run,
             unlink_temp = Inr ()\<rparr> = Inr res
      \<and> ela_result_of res = ''authentic'' \<and> ela_confidence_of res = 0.5
      \<and> ela_heatmap_path_of res = '''')"
proof -
  have b: "run_ela_analysis_body undecodable_ela_run = Inl (Raised ''cannot identify image file'')"
    by (simp add: run_ela_analysis_body_def undecodable_ela_run_def)
  show ?thesis
    using b local_path
      ela_failure_neutral
        [of "\<lparr>fetch = Inr (), ela = undecodable_ela_run, cnn = tampered_model_run,
              unlink_temp = Inr ()\<rparr>"
            "Raised ''cannot identify image file''" "''image/a.png''"]
    by simp
qed

section \<open>Results on document forensics\<close>

subsection \<open>The loops as sums\<close>

lemma score_objects_fst:
  "fst (score_objects objs (s, d)) = s + sum_list (map object_weight objs)"
  by (induction objs arbitrary: s d) (simp_all add: object_weight_def)

lemma score_objects_length:
  "length (snd (score_objects objs (s, d))) = length d + length objs"
  by (induction objs arbitrary: s d) simp_all

lemma score_anomalies_fst:
  "fst (score_anomalies as (s, d)) = s + sum_list (map anomaly_weight as)"
  by (induction as arbitrary: s d) (simp_all add: anomaly_weight_def)

lemma score_anomalies_length:
  "length (snd (score_anomalies as (s, d))) = length d + length as"
  by (induction as arbitrary: s d) simp_all

lemma score_elements_fst:
  "fst (score_elements els (s, d)) = s + 2 * int (length els)"
  by (induction els arbitrary: s d) simp_all

lemma score_elements_length:
  "length (snd (score_elements els (s, d))) = length d + length els"
  by (induction els arbitrary: s d) simp_all

lemma risk_score_total:
  "risk_score (summary (combine_analysis_results p q c)) =
     sum_list (map object_weight (get_suspicious_objects p))
     + sum_list (map anomaly_weight (get_anomalies q))
     + 2 * int (length (get_suspicious_elements q))"
proof -
  obtain s1 d1 where o: "score_objects (get_suspicious_objects p) (0, []) = (s1, d1)"
    by (cases "score_objects (get_suspicious_objects p) (0, [])")
  obtain s2 d2 where a: "score_anomalies (get_anomalies q) (s1, d1) = (s2, d2)"
    by (cases "score_anomalies (get_anomalies q) (s1, d1)")
  obtain s3 d3 where e: "score_elements (get_suspicious_elements q) (s2, d2) = (s3, d3)"
    by (cases "score_elements (get_suspicious_elements q) (s2, d2)")
  have "s1 = sum_list (map object_weight (get_suspicious_objects p))"
    using score_objects_fst [of "get_suspicious_objects p" 0 "[]"] by (simp add: o)
  moreover have "s2 = s1 + sum_list (map anomaly_weight (get_anomalies q))"
    using score_anomalies_fst [of "get_anomalies q" s1 d1] by (simp add: a)
  moreover have "s3 = s2 + 2 * int (length (get_suspicious_elements q))"
    using score_elements_fst [of "get_suspicious_elements q" s2 d2] by (simp add: e)
  moreover have "risk_score (summary (combine_analysis_results p q c)) = s3"
    by (simp add: combine_analysis_results_def o a e)
  ultimately show ?thesis by simp
qed

lemma risk_indicators_count:
  "length (risk_indicators (summary (combine_analysis_results p q c))) =
     length (get_suspicious_objects p) + length (get_anomalies q)
     + length (get_suspicious_elements q)"
proof -
  obtain s1 d1 where o: "score_objects (get_suspicious_objects p) (0, []) = (s1, d1)"
    by (cases "score_objects (get_suspicious_objects p) (0, [])")
  obtain s2 d2 where a: "score_anomalies (get_anomalies q) (s1, d1) = (s2, d2)"
    by (cases "score_anomalies (get_anomalies q) (s1, d1)")
  obtain s3 d3 where e: "score_elements (get_suspicious_elements q) (s2, d2) = (s3, d3)"
    by (cases "score_elements (get_suspicious_elements q) (s2, d2)")
  have "length d1 = length (get_suspicious_objects p)"
    using o score_objects_length [of "get_suspicious_objects p" 0 "[]"] by simp
  moreover have "length d2 = length d1 + length (get_anomalies q)"
    using a score_anomalies_length [of "get_anomalies q" s1 d1] by simp
  moreover have "length d3 = length d2 + length (get_suspicious_elements q)"
    using e score_elements_length [of "get_suspicious_elements q" s2 d2] by simp
  moreover have "risk_indicators (summary (combine_analysis_results p q c)) = d3"
    by (simp add: combine_analysis_results_def o a e)
  ultimately show ?thesis by simp
qed

lemma js_is_high_risk: "so_risk_level (suspicious_entry ''/JS'' 1) = ''high''"
  by (simp add: suspicious_entry_def get_risk_level_def)

subsection \<open>Monotone risk\<close>

text \<open>
  Claim C8 says that every finding adds 3, 2 or 1 to the risk score by its level. A
  suspicious structure element is a finding with a level of its own, and the third
  loop adds 2 for it whatever that level is. JavaScript among the names of the
  document, an element of high risk, adds 2 and not 3.
\<close>

theorem structure_element_counterexample:
  "el_risk javascript_in_names = ''high'' \<and>
   risk_score (summary (combine_analysis_results no_pdfid plain_report [])) = 0 \<and>
   risk_score (summary (combine_analysis_results no_pdfid scripted_report [])) = 2 \<and>
   risk_score (summary (combine_analysis_results no_pdfid scripted_report []))
     \<noteq> risk_score (summary (combine_analysis_results no_pdfid plain_report [])) + 3"
  by (simp add: risk_score_total no_pdfid_def plain_report_def scripted_report_def
        javascript_in_names_def)

text \<open>
  Claim C8, amended. The risk score is monotone in the findings of all three kinds.
  Adding one more suspicious object, at any place of the list, raises it by 3 when the
  risk level of the object is high, by 2 when it is medium and by 1 otherwise; adding
  one more anomaly does the same by its severity; adding one more suspicious structure
  element raises it by 2 whatever its risk entry says. In each case the risk score does
  not decrease.
\<close>

theorem risk_score_monotone:
  "risk_score (summary (combine_analysis_results
       (Pdfid_ok (r\<lparr>suspicious_objects := xs @ [obj] @ ys\<rparr>)) q c))
     = risk_score (summary (combine_analysis_results
         (Pdfid_ok (r\<lparr>suspicious_objects := xs @ ys\<rparr>)) q c))
       + (if so_risk_level obj = ''high'' then 3 else if so_risk_level obj = ''medium'' then 2 else 1)
   \<and> risk_score (summary (combine_analysis_results
         (Pdfid_ok (r\<lparr>suspicious_objects := xs @ ys\<rparr>)) q c))
     \<le> risk_score (summary (combine_analysis_results
         (Pdfid_ok (r\<lparr>suspicious_objects := xs @ [obj] @ ys\<rparr>)) q c))
   \<and> risk_score (summary (combine_analysis_results p
         (Pikepdf_ok (k\<lparr>anomalies := as @ [a] @ bs\<rparr>)) c))
     = risk_score (summary (combine_analysis_results p
         (Pikepdf_ok (k\<lparr>anomalies := as @ bs\<rparr>)) c))
       + (if an_severity a = ''high'' then 3 else if an_severity a = ''medium'' then 2 else 1)
   \<and> risk_score (summary (combine_analysis_results p
         (Pikepdf_ok (k\<lparr>anomalies := as @ bs\<rparr>)) c))
     \<le> risk_score (summary (combine_analysis_results p
         (Pikepdf_ok (k\<lparr>anomalies := as @ [a] @ bs\<rparr>)) c))
   \<and> risk_score (summary (combine_analysis_results p
         (Pikepdf_ok (k\<lparr>suspicious_elements := es @ [el] @ fs\<rparr>)) c))
     = risk_score (summary (combine_analysis_results p
         (Pikepdf_ok (k\<lparr>suspicious_elements := es @ fs\<rparr>)) c)) + 2
   \<and> risk_score (summary (combine_analysis_results p
         (Pikepdf_ok (k\<lparr>suspicious_elements := es @ fs\<rparr>)) c))
     \<le> risk_score (summary (combine_analysis_results p
         (Pikepdf_ok (k\<lparr>suspicious_elements := es @ [el] @ fs\<rparr>)) c))"
  by (simp add: risk_score_total object_weight_def anomaly_weight_def)

text \<open>A scan that failed contributes nothing, and the score is never negative.\<close>

lemma risk_score_nonnegative: "0 \<le> risk_score (summary (combine_analysis_results p q c))"
proof -
  have "0 \<le> sum_list (map object_weight xs)" for xs
    by (induction xs) (simp_all add: object_weight_def)
  moreover have "0 \<le> sum_list (map anomaly_weight ys)" for ys
    by (induction ys) (simp_all add: anomaly_weight_def)
  ultimately show ?thesis
    by (simp add: risk_score_total add_nonneg_nonneg)
qed

subsection \<open>Verdict thresholds\<close>

text \<open>
  Claim C2. For a summary with risk score \<open>s\<close> and \<open>n\<close> risk indicators the verdict and
  confidence are (suspicious, \<open>min 0.95 (0.70 + 0.03 * s)\<close>) when \<open>s \<ge> 8\<close> or \<open>n \<ge> 5\<close>;
  otherwise (suspicious, \<open>min 0.85 (0.60 + 0.04 * s)\<close>) when \<open>s \<ge> 4\<close> or \<open>n \<ge> 2\<close>;
  otherwise (suspicious, \<open>min 0.75 (0.50 + 0.05 * s)\<close>) when \<open>s \<ge> 2\<close>; otherwise
  (authentic, \<open>max 0.70 (0.90 - 0.10 * s)\<close>). A score of 8 is answered from the first
  formula, a score of 7 with fewer than five indicators from the second and not from
  the first. One object of high risk and one anomaly of high severity give the score 6
  and the verdict (suspicious, 0.84).
\<close>

theorem determine_verdict_rule:
  assumes "risk_score (summary a) = s" and "length (risk_indicators (summary a)) = n"
  shows "determine_verdict a =
           (if 8 \<le> s \<or> 5 \<le> n then (''suspicious'', min 0.95 (0.70 + 0.03 * real_of_int s))
            else if 4 \<le> s \<or> 2 \<le> n then (''suspicious'', min 0.85 (0.60 + 0.04 * real_of_int s))
            else if 2 \<le> s then (''suspicious'', min 0.75 (0.50 + 0.05 * real_of_int s))
            else (''authentic'', max 0.70 (0.90 - 0.10 * real_of_int s)))
         \<and> (s = 8 \<longrightarrow> determine_verdict a = (''suspicious'', min 0.95 (0.70 + 0.03 * 8)))
         \<and> (s = 7 \<and> n < 5 \<longrightarrow>
               determine_verdict a = (''suspicious'', min 0.85 (0.60 + 0.04 * 7))
               \<and> determine_verdict a \<noteq> (''suspicious'', min 0.95 (0.70 + 0.03 * 7)))
         \<and> (so_risk_level obj = ''high'' \<and> an_severity an = ''high'' \<longrightarrow>
              risk_score (summary (combine_analysis_results
                 (Pdfid_ok (r\<lparr>suspicious_objects := [obj]\<rparr>))
                 (Pikepdf_ok (k\<lparr>suspicious_elements := [], anomalies := [an]\<rparr>)) c)) = 6
              \<and> determine_verdict (combine_analysis_results
                 (Pdfid_ok (r\<lparr>suspicious_objects := [obj]\<rparr>))
                 (Pikepdf_ok (k\<lparr>suspicious_elements := [], anomalies := [an]\<rparr>)) c)
                = (''suspicious'', 0.84))"
proof -
  have main: "determine_verdict a =
           (if 8 \<le> s \<or> 5 \<le> n then (''suspicious'', min 0.95 (0.70 + 0.03 * real_of_int s))
            else if 4 \<le> s \<or> 2 \<le> n then (''suspicious'', min 0.85 (0.60 + 0.04 * real_of_int s))
            else if 2 \<le> s then (''suspicious'', min 0.75 (0.50 + 0.05 * real_of_int s))
            else (''authentic'', max 0.70 (0.90 - 0.10 * real_of_int s)))"
    using assms by (simp add: determine_verdict_def Let_def mult.commute)
  have s8: "s = 8 \<longrightarrow> determine_verdict a = (''suspicious'', min 0.95 (0.70 + 0.03 * 8))"
    using main by simp
  have s7: "s = 7 \<and> n < 5 \<longrightarrow>
               determine_verdict a = (''suspicious'', min 0.85 (0.60 + 0.04 * 7))
               \<and> determine_verdict a \<noteq> (''suspicious'', min 0.95 (0.70 + 0.03 * 7))"
    using main by simp
  have sc: "so_risk_level obj = ''high'' \<and> an_severity an = ''high'' \<longrightarrow>
              risk_score (summary (combine_analysis_results
                 (Pdfid_ok (r\<lparr>suspicious_objects := [obj]\<rparr>))
                 (Pikepdf_ok (k\<lparr>suspicious_elements := [], anomalies := [an]\<rparr>)) c)) = 6
              \<and> determine_verdict (combine_analysis_results
                 (Pdfid_ok (r\<lparr>suspicious_objects := [obj]\<rparr>))
                 (Pikepdf_ok (k\<lparr>suspicious_elements := [], anomalies := [an]\<rparr>)) c)
                = (''suspicious'', 0.84)"
    by (simp add: determine_verdict_def Let_def risk_score_total risk_indicators_count
          object_weight_def anomaly_weight_def)
  show ?thesis using main s8 s7 sc by blast
qed

theorem determine_verdict_rule_witness:
  "risk_score (summary (combine_analysis_results js_report backdated_report [])) = 6 \<and>
   length (risk_indicators (summary (combine_analysis_results js_report backdated_report []))) = 2 \<and>
   so_risk_level (suspicious_entry ''/JS'' 1) = ''high'' \<and>
   an_severity time_anomaly = ''high'' \<and>
   determine_verdict (combine_analysis_results js_report backdated_report []) = (''suspicious'', 0.84) \<and>
   risk_score (summary (combine_analysis_results js_report backdated_anonymous_report [])) = 8 \<and>
   determine_verdict (combine_analysis_results js_report backdated_anonymous_report [])
     = (''suspicious'', 0.94) \<and>
   risk_score (summary (combine_analysis_results no_pdfid backdated_anonymous_form_report [])) = 7 \<and>
   length (risk_indicators (summary (combine_analysis_results no_pdfid backdated_anonymous_form_report [])))
     = 3 \<and>
   determine_verdict (combine_analysis_results no_pdfid backdated_anonymous_form_report [])
     = (''suspicious'', 0.85)"
proof -
  have s6: "risk_score (summary (combine_analysis_results js_report backdated_report [])) = 6"
    by (simp add: risk_score_total js_report_def backdated_report_def object_weight_def
          anomaly_weight_def js_is_high_risk time_anomaly_def)
  have n2: "length (risk_indicators (summary (combine_analysis_results js_report backdated_report [])))
              = 2"
    by (simp add: risk_indicators_count js_report_def backdated_report_def)
  have s8: "risk_score (summary (combine_analysis_results js_report backdated_anonymous_report [])) = 8"
    by (simp add: risk_score_total js_report_def backdated_anonymous_report_def object_weight_def
          anomaly_weight_def js_is_high_risk time_anomaly_def metadata_missing_def)
  have n3: "length (risk_indicators (summary (combine_analysis_results js_report
              backdated_anonymous_report []))) = 3"
    by (simp add: risk_indicators_count js_report_def backdated_anonymous_report_def)
  have s7: "risk_score (summary (combine_analysis_results no_pdfid backdated_anonymous_form_report []))
              = 7"
    by (simp add: risk_score_total no_pdfid_def backdated_anonymous_form_report_def
          anomaly_weight_def time_anomaly_def metadata_missing_def)
  have m3: "length (risk_indicators (summary (combine_analysis_results no_pdfid
              backdated_anonymous_form_report []))) = 3"
    by (simp add: risk_indicators_count no_pdfid_def backdated_anonymous_form_report_def)
  have hi: "an_severity time_anomaly = ''high''"
    by (simp add: time_anomaly_def)
  note a = determine_verdict_rule [OF s6 n2]
  note b = determine_verdict_rule [OF s8 n3]
  note c = determine_verdict_rule [OF s7 m3]
  show ?thesis
    using s6 n2 s8 s7 m3 hi js_is_high_risk a b c by simp
qed

section \<open>Results on text credibility\<close>

text \<open>
  Claim C6. For an analysis result with \<open>k\<close> red flags, sentiment label \<open>L\<close> with score
  \<open>p\<close> and anomaly flag \<open>a\<close>, the credibility score is 10 minus \<open>1.5 * k\<close>, minus 2
  when \<open>L\<close> is the label \<open>NEGATIVE\<close>, minus 1 when \<open>L\<close> is the label \<open>POSITIVE\<close> and
  \<open>p > 0.8\<close>, minus 3 when \<open>a\<close> holds, clamped to the range from 0 to 10. Four red
  flags, negative sentiment and an anomaly give 0 and not a negative number.
\<close>

theorem credibility_score_rule:
  assumes "red_flags res = Some flags"
    and "sentiment_of res = Some \<lparr>label = Some L, score = Some p\<rparr>"
    and "anomaly_detected res = Some \<lparr>anomaly_flag = Some a, details = d\<rparr>"
  shows "calculate_credibility_score res =
           Inr (max 0 (min 10 (10 - 1.5 * real (length flags)
                  - (if L = ''NEGATIVE'' then 2 else if L = ''POSITIVE'' \<and> p > 0.8 then 1 else 0)
                  - (if a then 3 else 0))))
         \<and> (length flags = 4 \<and> L = ''NEGATIVE'' \<and> a \<longrightarrow> calculate_credibility_score res = Inr 0)
         \<and> (\<exists>v. calculate_credibility_score res = Inr v \<and> 0 \<le> v \<and> v \<le> 10)"
  using assms by (simp add: calculate_credibility_score_def Let_def mult.commute)

theorem credibility_score_rule_witness:
  "red_flags hyped_announcement
     = Some [''promotional hype'', ''unrealistic projections'', ''vague language'',
             ''overly optimistic claims''] \<and>
   sentiment_of hyped_announcement = Some \<lparr>label = Some ''NEGATIVE'', score = Some 0.97\<rparr> \<and>
   anomaly_detected hyped_announcement
     = Some \<lparr>anomaly_flag = Some True, details = ''Found 1 anomalies''\<rparr> \<and>
   calculate_credibility_score hyped_announcement = Inr 0"
  using credibility_score_rule
      [of hyped_announcement
          "[''promotional hype'', ''unrealistic projections'', ''vague language'',
            ''overly optimistic claims'']"
          "''NEGATIVE''" "0.97" True "''Found 1 anomalies''"]
  by (simp add: hyped_announcement_def)

text \<open>
  The penalties hang on the two literals of the source. Any other label, the
  \<open>neutral\<close> of the fallback among them, costs nothing.
\<close>

lemma other_label_no_penalty:
  assumes "red_flags res = Some flags"
    and "sentiment_of res = Some \<lparr>label = Some L, score = Some p\<rparr>"
    and "anomaly_detected res = Some \<lparr>anomaly_flag = Some False, details = d\<rparr>"
    and "L \<noteq> ''NEGATIVE''" and "L \<noteq> ''POSITIVE''"
  shows "calculate_credibility_score res = Inr (max 0 (10 - 1.5 * real (length flags)))"
  using assms by (simp add: calculate_credibility_score_def Let_def mult.commute)

section \<open>Results on upload and analysis requests\<close>

subsection \<open>Rows found and rewritten\<close>

lemma find_update_first:
  "find P xs = Some x \<Longrightarrow>
     \<exists>ys zs. xs = ys @ x # zs \<and> (\<forall>y\<in>set ys. \<not> P y) \<and> update_first P g xs = ys @ g x # zs"
proof (induction xs)
  case Nil
  then show ?case by simp
next
  case (Cons a xs)
  show ?case
  proof (cases "P a")
    case True
    with Cons.prems have "a = x" by simp
    with True show ?thesis by (intro exI [of _ "[]"] exI [of _ xs]) simp
  next
    case False
    with Cons.prems have "find P xs = Some x" by simp
    from Cons.IH [OF this] obtain ys zs where
      "xs = ys @ x # zs" "\<forall>y\<in>set ys. \<not> P y" "update_first P g xs = ys @ g x # zs" by blast
    with False show ?thesis by (intro exI [of _ "a # ys"] exI [of _ zs]) simp
  qed
qed

subsection \<open>A request on a job in progress\<close>

text \<open>
  Claim C7. An analysis request on a file whose status is \<open>processing\<close> leaves the
  table and the list of background tasks as they are: no task is added and no status
  is written. The request through the route of the file's own type is answered with
  the status \<open>processing\<close> and the message that the analysis is already in progress.
\<close>

theorem processing_request_is_no_op:
  assumes "find (\<lambda>g. file_id g = fid) (files st) = Some f"
    and "analysis_status f = ''processing''"
  shows "snd (analyze_pdf fid st) = st \<and> snd (analyze_image_route fid st) = st \<and>
         (file_type f = ''pdf'' \<longrightarrow>
            analyze_pdf fid st =
              (Inr \<lparr>ar_file_id = fid, ar_status = ''processing'',
                    ar_message = ''PDF analysis already in progress''\<rparr>, st)) \<and>
         (file_type f = ''image'' \<longrightarrow>
            analyze_image_route fid st =
              (Inr \<lparr>ar_file_id = fid, ar_status = ''processing'',
                    ar_message = ''Image analysis already in progress''\<rparr>, st))"
  using assms by (simp add: analyze_pdf_def analyze_image_route_def)

theorem processing_request_is_no_op_witness:
  "find (\<lambda>g. file_id g = ''11111111-1111-4111-8111-111111111111'')
        (files \<lparr>files = [processing_pdf, processing_image],
                 tasks = [Run_pdf_analysis ''11111111-1111-4111-8111-111111111111''
                            ''pdf/11111111-1111-4111-8111-111111111111.pdf'']\<rparr>)
     = Some processing_pdf \<and>
   analysis_status processing_pdf = ''processing'' \<and>
   file_type processing_pdf = ''pdf'' \<and>
   analyze_pdf ''11111111-1111-4111-8111-111111111111''
       \<lparr>files = [processing_pdf, processing_image],
        tasks = [Run_pdf_analysis ''11111111-1111-4111-8111-111111111111''
                   ''pdf/11111111-1111-4111-8111-111111111111.pdf'']\<rparr>
     = (Inr \<lparr>ar_file_id = ''11111111-1111-4111-8111-111111111111'', ar_status = ''processing'',
             ar_message = ''PDF analysis already in progress''\<rparr>,
        \<lparr>files = [processing_pdf, processing_image],
         tasks = [Run_pdf_analysis ''11111111-1111-4111-8111-111111111111''
                    ''pdf/11111111-1111-4111-8111-111111111111.pdf'']\<rparr>) \<and>
   find (\<lambda>g. file_id g = ''33333333-3333-4333-8333-333333333333'')
        (files \<lparr>files = [processing_pdf, processing_image], tasks = []\<rparr>)
     = Some processing_image \<and>
   analysis_status processing_image = ''processing'' \<and>
   file_type processing_image = ''image'' \<and>
   analyze_image_route ''33333333-3333-4333-8333-333333333333''
       \<lparr>files = [processing_pdf, processing_image], tasks = []\<rparr>
     = (Inr \<lparr>ar_file_id = ''33333333-3333-4333-8333-333333333333'', ar_status = ''processing'',
             ar_message = ''Image analysis already in progress''\<rparr>,
        \<lparr>files = [processing_pdf, processing_image], tasks = []\<rparr>)"
proof -
  have a: "find (\<lambda>g. file_id g = ''11111111-1111-4111-8111-111111111111'')
        (files \<lparr>files = [processing_pdf, processing_image],
                 tasks = [Run_pdf_analysis ''11111111-1111-4111-8111-111111111111''
                            ''pdf/11111111-1111-4111-8111-111111111111.pdf'']\<rparr>)
     = Some processing_pdf"
    by (simp add: processing_pdf_def pending_pdf_def)
  have b: "analysis_status processing_pdf = ''processing''"
    by (simp add: processing_pdf_def)
  have c: "file_type processing_pdf = ''pdf''"
    by (simp add: processing_pdf_def pending_pdf_def)
  have d: "find (\<lambda>g. file_id g = ''33333333-3333-4333-8333-333333333333'')
        (files \<lparr>files = [processing_pdf, processing_image], tasks = []\<rparr>)
     = Some processing_image"
    by (simp add: processing_pdf_def pending_pdf_def processing_image_def failed_image_def)
  have e: "analysis_status processing_image = ''processing''"
    by (simp add: processing_image_def)
  have f: "file_type processing_image = ''image''"
    by (simp add: processing_image_def failed_image_def)
  show ?thesis
    using a b c d e f processing_request_is_no_op [OF a b] processing_request_is_no_op [OF d e]
    by simp
qed

subsection \<open>A request on a finished job\<close>

text \<open>
  Claim C4 says that an analysis request on a job whose status is \<open>completed\<close> or
  \<open>failed\<close> is a failure or a no-op. The routes test for \<open>processing\<close> only. On a
  completed document, and on a failed image, the request is accepted, the status
  becomes \<open>processing\<close> and a new extraction task is handed over.
\<close>

theorem terminal_request_counterexample:
  "analysis_status completed_pdf = ''completed'' \<and>
   analyze_pdf ''11111111-1111-4111-8111-111111111111'' \<lparr>files = [completed_pdf], tasks = []\<rparr>
     = (Inr \<lparr>ar_file_id = ''11111111-1111-4111-8111-111111111111'', ar_status = ''processing'',
             ar_message = ''PDF analysis started''\<rparr>,
        \<lparr>files = [completed_pdf\<lparr>analysis_status := ''processing''\<rparr>],
         tasks = [Run_pdf_analysis ''11111111-1111-4111-8111-111111111111''
                    ''pdf/11111111-1111-4111-8111-111111111111.pdf'']\<rparr>) \<and>
   snd (analyze_pdf ''11111111-1111-4111-8111-111111111111'' \<lparr>files = [completed_pdf], tasks = []\<rparr>)
     \<noteq> \<lparr>files = [completed_pdf], tasks = []\<rparr> \<and>
   analysis_status failed_image = ''failed'' \<and>
   analyze_image_route ''33333333-3333-4333-8333-333333333333'' \<lparr>files = [failed_image], tasks = []\<rparr>
     = (Inr \<lparr>ar_file_id = ''33333333-3333-4333-8333-333333333333'', ar_status = ''processing'',
             ar_message = ''Image analysis started''\<rparr>,
        \<lparr>files = [processing_image],
         tasks = [Run_image_analysis ''33333333-3333-4333-8333-333333333333''
                    ''image/33333333-3333-4333-8333-333333333333.png'']\<rparr>)"
  by (simp add: analyze_pdf_def analyze_image_route_def completed_pdf_def pending_pdf_def
        failed_image_def processing_image_def)

text \<open>
  Claim C4, amended. An analysis request on a job whose status is \<open>completed\<close> or
  \<open>failed\<close>, through the route of the file's own type, is accepted: the answer is
  that the analysis has started, the status of that row becomes \<open>processing\<close>, one
  extraction task for it is appended, and nothing else changes; the verdict and the
  confidence of the row stay as they were at the time of the request.
\<close>

theorem terminal_request_restarts:
  assumes "find (\<lambda>g. file_id g = fid) (files st) = Some f"
    and "analysis_status f = ''completed'' \<or> analysis_status f = ''failed''"
  shows "\<exists>ys zs. files st = ys @ f # zs \<and> (\<forall>y\<in>set ys. file_id y \<noteq> fid) \<and>
         (file_type f = ''pdf'' \<longrightarrow>
            analyze_pdf fid st =
              (Inr \<lparr>ar_file_id = fid, ar_status = ''processing'',
                    ar_message = ''PDF analysis started''\<rparr>,
               st\<lparr>files := ys @ f\<lparr>analysis_status := ''processing''\<rparr> # zs,
                  tasks := tasks st @ [Run_pdf_analysis fid (storage_path f)]\<rparr>)) \<and>
         (file_type f = ''image'' \<longrightarrow>
            analyze_image_route fid st =
              (Inr \<lparr>ar_file_id = fid, ar_status = ''processing'',
                    ar_message = ''Image analysis started''\<rparr>,
               st\<lparr>files := ys @ f\<lparr>analysis_status := ''processing''\<rparr> # zs,
                  tasks := tasks st @ [Run_image_analysis fid (storage_path f)]\<rparr>))"
proof -
  from find_update_first [OF assms(1), of "\<lambda>f. f\<lparr>analysis_status := ''processing''\<rparr>"]
  obtain ys zs where s: "files st = ys @ f # zs" "\<forall>y\<in>set ys. file_id y \<noteq> fid"
    and u: "update_first (\<lambda>g. file_id g = fid) (\<lambda>f. f\<lparr>analysis_status := ''processing''\<rparr>) (files st)
          = ys @ f\<lparr>analysis_status := ''processing''\<rparr> # zs"
    by blast
  have n: "analysis_status f \<noteq> ''processing''"
    using assms(2) by auto
  have p: "file_type f = ''pdf'' \<longrightarrow>
            analyze_pdf fid st =
              (Inr \<lparr>ar_file_id = fid, ar_status = ''processing'',
                    ar_message = ''PDF analysis started''\<rparr>,
               st\<lparr>files := ys @ f\<lparr>analysis_status := ''processing''\<rparr> # zs,
                  tasks := tasks st @ [Run_pdf_analysis fid (storage_path f)]\<rparr>)"
    using n assms(1) u by (simp add: analyze_pdf_def)
  have i: "file_type f = ''image'' \<longrightarrow>
            analyze_image_route fid st =
              (Inr \<lparr>ar_file_id = fid, ar_status = ''processing'',
                    ar_message = ''Image analysis started''\<rparr>,
               st\<lparr>files := ys @ f\<lparr>analysis_status := ''processing''\<rparr> # zs,
                  tasks := tasks st @ [Run_image_analysis fid (storage_path f)]\<rparr>)"
    using n assms(1) u by (simp add: analyze_image_route_def)
  show ?thesis
    using s p i by blast
qed

theorem terminal_request_restarts_witness:
  "find (\<lambda>g. file_id g = ''11111111-1111-4111-8111-111111111111'')
        (files \<lparr>files = [failed_image, completed_pdf], tasks = []\<rparr>) = Some completed_pdf \<and>
   analysis_status completed_pdf = ''completed'' \<and>
   file_type completed_pdf = ''pdf'' \<and>
   analyze_pdf ''11111111-1111-4111-8111-111111111111''
       \<lparr>files = [failed_image, completed_pdf], tasks = []\<rparr>
     = (Inr \<lparr>ar_file_id = ''11111111-1111-4111-8111-111111111111'', ar_status = ''processing'',
             ar_message = ''PDF analysis started''\<rparr>,
        \<lparr>files = [failed_image, completed_pdf\<lparr>analysis_status := ''processing''\<rparr>],
         tasks = [Run_pdf_analysis ''11111111-1111-4111-8111-111111111111''
                    ''pdf/11111111-1111-4111-8111-111111111111.pdf'']\<rparr>) \<and>
   verdict (completed_pdf\<lparr>analysis_status := ''processing''\<rparr>) = Some ''authentic'' \<and>
   confidence_score (completed_pdf\<lparr>analysis_status := ''processing''\<rparr>) = Some 0.9"
proof -
  have a: "find (\<lambda>g. file_id g = ''11111111-1111-4111-8111-111111111111'')
        (files \<lparr>files = [failed_image, completed_pdf], tasks = []\<rparr>) = Some completed_pdf"
    by (simp add: failed_image_def completed_pdf_def pending_pdf_def)
  have b: "analysis_status completed_pdf = ''completed'' \<or> analysis_status completed_pdf = ''failed''"
    by (simp add: completed_pdf_def)
  have c: "file_type completed_pdf = ''pdf''"
    by (simp add: completed_pdf_def pending_pdf_def)
  have d: "storage_path completed_pdf = ''pdf/11111111-1111-4111-8111-111111111111.pdf''"
    by (simp add: completed_pdf_def pending_pdf_def)
  from terminal_request_restarts [OF a b] obtain ys zs where
    s: "[failed_image, completed_pdf] = ys @ completed_pdf # zs"
       "\<forall>y\<in>set ys. file_id y \<noteq> ''11111111-1111-4111-8111-111111111111''"
    and r: "analyze_pdf ''11111111-1111-4111-8111-111111111111''
              \<lparr>files = [failed_image, completed_pdf], tasks = []\<rparr>
          = (Inr \<lparr>ar_file_id = ''11111111-1111-4111-8111-111111111111'', ar_status = ''processing'',
                  ar_message = ''PDF analysis started''\<rparr>,
             \<lparr>files = ys @ completed_pdf\<lparr>analysis_status := ''processing''\<rparr> # zs,
              tasks = [Run_pdf_analysis ''11111111-1111-4111-8111-111111111111''
                         ''pdf/11111111-1111-4111-8111-111111111111.pdf'']\<rparr>)"
    using c d by auto
  have "file_id completed_pdf = ''11111111-1111-4111-8111-111111111111''"
    by (simp add: completed_pdf_def pending_pdf_def)
  moreover have "failed_image \<noteq> completed_pdf"
    by (simp add: failed_image_def completed_pdf_def pending_pdf_def)
  ultimately have "ys = [failed_image] \<and> zs = []"
    using s by (cases ys; cases "tl ys") auto
  with r a c show ?thesis
    by (simp add: completed_pdf_def)
qed

subsection \<open>The storage service cannot be built\<close>

text \<open>
  The constructor of the storage service reads \<open>settings.SUPABASE_BUCKET_NAME\<close>. The
  class \<open>Settings\<close> declares \<open>SUPABASE_STORAGE_BUCKET\<close> and no attribute of that name,
  so the constructor raises whatever the environment holds: when there is no client
  \<open>get_supabase\<close> raises, and when there is one the attribute access raises. What it
  raises is never an \<open>HTTPException\<close>.
\<close>

lemma bucket_name_not_declared:
  "''SUPABASE_BUCKET_NAME'' \<notin> set settings_fields \<and> ''SUPABASE_STORAGE_BUCKET'' \<in> set settings_fields"
  by (simp add: settings_fields_def)

lemma storage_service_init_raises:
  "\<exists>msg. storage_service_init run = Inl (Raised msg)"
  by (cases "supabase_client run")
     (simp_all add: storage_service_init_def get_supabase_def settings_getattr_def
        settings_fields_def)

text \<open>
  Hence \<open>get_storage_service\<close> never stores an instance: it leaves the process as it
  finds it, and in a process without an instance it raises.
\<close>

lemma get_storage_service_state:
  "snd (get_storage_service run p) = p"
proof (cases "storage_service_instance p")
  case None
  obtain msg where "storage_service_init run = Inl (Raised msg)"
    using storage_service_init_raises by blast
  with None show ?thesis
    by (simp add: get_storage_service_def)
next
  case (Some service)
  then show ?thesis
    by (simp add: get_storage_service_def)
qed

lemma get_storage_service_raises:
  assumes "storage_service_instance p = None"
  shows "\<exists>msg. get_storage_service run p = (Inl (Raised msg), p)"
proof -
  obtain msg where "storage_service_init run = Inl (Raised msg)"
    using storage_service_init_raises by blast
  with assms show ?thesis
    by (simp add: get_storage_service_def)
qed

lemma validate_file_type_error:
  assumes "validate_file_type L file_content name = Inl e"
  shows "\<exists>code detail. e = HTTPException code detail"
  using assms by (auto simp: validate_file_type_def Let_def split: if_splits)

subsection \<open>Two uploads of the same bytes\<close>

text \<open>
  A file that passes the checks of size and type is answered with the status 500, and
  the process is as before.
\<close>

lemma upload_file_accepted_fails:
  assumes "storage_service_instance p = None"
    and "length file_content \<le> MAX_FILE_SIZE"
    and "validate_file_type L file_content name = Inr ftype"
  shows "upload_file L run (name, file_content) p
           = (Inl (HTTPException 500 ''Failed to upload file''), p)"
proof -
  obtain msg where "get_storage_service run p = (Inl (Raised msg), p)"
    using get_storage_service_raises [OF assms(1)] by blast
  with assms(2,3) show ?thesis
    by (simp add: upload_file_def upload_file_body_def)
qed

lemma upload_file_fails:
  assumes "storage_service_instance p = None"
  shows "\<exists>code detail. upload_file L run upload p = (Inl (HTTPException code detail), p)"
proof -
  obtain name file_content where u: "upload = (name, file_content)"
    by (cases upload)
  show ?thesis
  proof (cases "length file_content > MAX_FILE_SIZE")
    case True
    then show ?thesis
      by (simp add: u upload_file_def upload_file_body_def)
  next
    case False
    show ?thesis
    proof (cases "validate_file_type L file_content name")
      case (Inl e)
      then obtain code detail where "e = HTTPException code detail"
        using validate_file_type_error by blast
      with Inl False show ?thesis
        by (simp add: u upload_file_def upload_file_body_def)
    next
      case (Inr ftype)
      with False upload_file_accepted_fails [OF assms, of file_content L name ftype run]
      show ?thesis
        by (simp add: u)
    qed
  qed
qed

text \<open>
  Claim C3 says that two uploads of the same bytes yield the same fingerprint and that
  the second reuses the record of the first. The route \<open>/api/upload\<close> yields no
  fingerprint and no record at all. In a process that holds no storage service, which
  is every process from its start on, each of the two uploads is answered with an
  \<open>HTTPException\<close>, and the table of files, the scheduled tasks and the missing service
  are as they were, so that the second upload finds the process as the first found it
  and there is no record for it to reuse.
\<close>

theorem upload_file_always_fails:
  assumes "storage_service_instance p = None"
  shows "\<exists>code1 detail1 code2 detail2.
           upload_file L run1 (name1, file_content) p = (Inl (HTTPException code1 detail1), p) \<and>
           upload_file L run2 (name2, file_content) p = (Inl (HTTPException code2 detail2), p)"
proof -
  obtain code1 detail1 where
    1: "upload_file L run1 (name1, file_content) p = (Inl (HTTPException code1 detail1), p)"
    using upload_file_fails [OF assms] by blast
  obtain code2 detail2 where
    2: "upload_file L run2 (name2, file_content) p = (Inl (HTTPException code2 detail2), p)"
    using upload_file_fails [OF assms] by blast
  from 1 2 show ?thesis
    by blast
qed

theorem upload_file_always_fails_witness:
  "storage_service_instance initial_process = None \<and>
   upload_file sample_libs first_run (''report.pdf'', []) initial_process
     = (Inl (HTTPException 500 ''Failed to upload file''), initial_process) \<and>
   upload_file sample_libs second_run (''copy.pdf'', []) initial_process
     = (Inl (HTTPException 500 ''Failed to upload file''), initial_process) \<and>
   files initial_process = []"
proof -
  have n: "storage_service_instance initial_process = None"
    by (simp add: initial_process_def)
  from upload_file_always_fails [OF n, of sample_libs first_run "''report.pdf''" "[]"
      second_run "''copy.pdf''"]
  obtain code1 detail1 code2 detail2 where
    s: "snd (upload_file sample_libs first_run (''report.pdf'', []) initial_process) = initial_process"
       "snd (upload_file sample_libs second_run (''copy.pdf'', []) initial_process) = initial_process"
    by auto
  have a: "fst (upload_file sample_libs first_run (''report.pdf'', []) initial_process)
             = Inl (HTTPException 500 ''Failed to upload file'')"
    by (simp add: upload_file_def upload_file_body_def get_storage_service_def
          storage_service_init_def get_supabase_def settings_getattr_def settings_fields_def
          validate_file_type_def mime_type_of_def detect_mime_type_def or_else_def
          sample_libs_def first_run_def initial_process_def MAX_FILE_SIZE_def
          ALLOWED_EXTENSIONS_def Let_def)
  have b: "fst (upload_file sample_libs second_run (''copy.pdf'', []) initial_process)
             = Inl (HTTPException 500 ''Failed to upload file'')"
    by (simp add: upload_file_def upload_file_body_def get_storage_service_def
          storage_service_init_def get_supabase_def settings_getattr_def settings_fields_def
          validate_file_type_def mime_type_of_def detect_mime_type_def or_else_def
          sample_libs_def second_run_def initial_process_def MAX_FILE_SIZE_def
          ALLOWED_EXTENSIONS_def Let_def)
  have "upload_file sample_libs first_run (''report.pdf'', []) initial_process
          = (Inl (HTTPException 500 ''Failed to upload file''), initial_process)"
    using a s(1) by (simp add: prod_eq_iff)
  moreover have "upload_file sample_libs second_run (''copy.pdf'', []) initial_process
          = (Inl (HTTPException 500 ''Failed to upload file''), initial_process)"
    using b s(2) by (simp add: prod_eq_iff)
  moreover have "files initial_process = []"
    by (simp add: initial_process_def)
  ultimately show ?thesis
    using n by simp
qed

subsection \<open>The public upload route does look the fingerprint up\<close>

text \<open>
  The route \<open>/public/upload\<close> of the same application catches the exception of the
  storage service and writes the file to a local directory. It answers an upload whose
  fingerprint is in the table with the existing row, and neither adds a row nor
  schedules a task. So the second of two uploads of the same bytes through that route
  is answered with the identifier of the first. Neither upload route ever gives the
  process a storage service.
\<close>

lemma find_appended:
  "find P xs = None \<Longrightarrow> P x \<Longrightarrow> find P (xs @ [x]) = Some x"
  by (induction xs) (auto split: if_splits)

lemma public_storage_metadata_state:
  "snd (public_storage_metadata L run name file_content ftype p) = p"
proof -
  obtain r where "get_storage_service (storage_run run) p = (r, p)"
    using get_storage_service_state [of "storage_run run" p]
    by (cases "get_storage_service (storage_run run) p") simp
  then show ?thesis
    by (simp add: public_storage_metadata_def Let_def split: sum.splits)
qed

lemma public_upload_reuses_record:
  assumes "find (\<lambda>f. file_hash f = sha256_hexdigest L file_content) (files db) = Some existing"
    and "get_file_type L name (case content_type of Some ct \<Rightarrow> ct | None \<Rightarrow> []) \<noteq> ''unknown''"
  shows "public_upload_file L run (name, content_type, file_content) db =
           (Inr (File_already_uploaded (file_id existing) (file_hash existing)
                   (analysis_status existing)), db)"
proof -
  obtain m where "public_storage_metadata L run name file_content
      (get_file_type L name (case content_type of Some ct \<Rightarrow> ct | None \<Rightarrow> [])) db = (m, db)"
    using public_storage_metadata_state [of L run name file_content _ db]
    by (metis prod.collapse)
  with assms show ?thesis
    by (simp add: public_upload_file_def public_upload_file_body_def Let_def)
qed

lemma public_upload_new_row:
  assumes "public_upload_file L run (name, content_type, file_content) db
             = (Inr (File_uploaded h i s), db')"
  shows "find (\<lambda>f. file_hash f = sha256_hexdigest L file_content) (files db) = None \<and>
         h = sha256_hexdigest L file_content \<and>
         (\<exists>f. files db' = files db @ [f] \<and> file_hash f = h \<and> file_id f = i) \<and>
         storage_service_instance db' = storage_service_instance db"
proof -
  obtain m where m: "public_storage_metadata L run name file_content
      (get_file_type L name (case content_type of Some ct \<Rightarrow> ct | None \<Rightarrow> [])) db = (m, db)"
    using public_storage_metadata_state [of L run name file_content _ db]
    by (metis prod.collapse)
  show ?thesis
  proof (cases "find (\<lambda>f. file_hash f = sha256_hexdigest L file_content) (files db)")
    case (Some existing)
    then show ?thesis
      using assms m
      by (simp add: public_upload_file_def public_upload_file_body_def Let_def split: if_splits)
  next
    case None
    then show ?thesis
      using assms m
      by (auto simp add: public_upload_file_def public_upload_file_body_def Let_def
            split: if_splits)
  qed
qed

lemma public_upload_twice:
  assumes "public_upload_file L run1 (name1, ct1, file_content) db = (Inr (File_uploaded h i s), db1)"
    and "get_file_type L name2 (case ct2 of Some ct \<Rightarrow> ct | None \<Rightarrow> []) \<noteq> ''unknown''"
  shows "\<exists>status. public_upload_file L run2 (name2, ct2, file_content) db1 =
           (Inr (File_already_uploaded i h status), db1)"
proof -
  from public_upload_new_row [OF assms(1)] obtain f where
    n: "find (\<lambda>f. file_hash f = sha256_hexdigest L file_content) (files db) = None"
    and h: "h = sha256_hexdigest L file_content"
    and f: "files db1 = files db @ [f]" "file_hash f = h" "file_id f = i"
    by blast
  have "find (\<lambda>f. file_hash f = sha256_hexdigest L file_content) (files db1) = Some f"
    using n h f(1,2) by (simp add: find_appended)
  from public_upload_reuses_record [OF this assms(2)] f show ?thesis
    by auto
qed

lemma public_upload_keeps_no_service:
  "storage_service_instance (snd (public_upload_file L run upload p)) = storage_service_instance p"
proof -
  obtain name content_type file_content where u: "upload = (name, content_type, file_content)"
    by (cases upload)
  obtain m where "public_storage_metadata L run name file_content
      (get_file_type L name (case content_type of Some ct \<Rightarrow> ct | None \<Rightarrow> [])) p = (m, p)"
    using public_storage_metadata_state [of L run name file_content _ p]
    by (metis prod.collapse)
  then show ?thesis
    by (simp add: u public_upload_file_def public_upload_file_body_def Let_def
          split: option.splits error.splits)
qed

lemma public_upload_twice_example:
  "public_upload_file sample_libs public_first_run
       (''report.pdf'', Some ''application/pdf'', []) initial_process
     = (Inr (File_uploaded ''e3b0c44298fc1c149afbf4c8996fb92427ae41e4649b934ca495991b7852b855''
               ''55555555-5555-4555-8555-555555555555'' ''local''),
        \<lparr>files = [public_pending_pdf],
         tasks = [Run_public_pdf_analysis ''55555555-5555-4555-8555-555555555555''
                    ''uploads/44444444-4444-4444-8444-444444444444.pdf''],
         storage_service_instance = None\<rparr>) \<and>
   public_upload_file sample_libs public_second_run
       (''copy.pdf'', Some ''application/pdf'', [])
       \<lparr>files = [public_pending_pdf],
        tasks = [Run_public_pdf_analysis ''55555555-5555-4555-8555-555555555555''
                   ''uploads/44444444-4444-4444-8444-444444444444.pdf''],
        storage_service_instance = None\<rparr>
     = (Inr (File_already_uploaded ''55555555-5555-4555-8555-555555555555''
               ''e3b0c44298fc1c149afbf4c8996fb92427ae41e4649b934ca495991b7852b855'' ''pending''),
        \<lparr>files = [public_pending_pdf],
         tasks = [Run_public_pdf_analysis ''55555555-5555-4555-8555-555555555555''
                    ''uploads/44444444-4444-4444-8444-444444444444.pdf''],
         storage_service_instance = None\<rparr>)"
  by (simp add: public_upload_file_def public_upload_file_body_def public_storage_metadata_def
        get_storage_service_def storage_service_init_def get_supabase_def
        settings_getattr_def settings_fields_def get_file_type_def or_else_def sample_libs_def
        public_first_run_def public_second_run_def first_run_def second_run_def
        initial_process_def public_pending_pdf_def Let_def)

end
